theory Spec2Isabelle
  imports Complex_Main
begin

section \<open>Values of the signal bundle\<close>

text \<open>
  The scoring engine (\<^verbatim>\<open>bcat-scorer/scorer.py\<close>, \<^verbatim>\<open>bcat-scorer/api.py\<close>) receives a JSON
  document and probes its shape at run time. A JSON value is modelled by \<open>pyval\<close>; a
  Python \<^verbatim>\<open>dict\<close> with string keys is an association list in insertion order (keys
  distinct). Python numbers (\<^verbatim>\<open>int\<close> and \<^verbatim>\<open>float\<close>) are modelled by the reals:
  arithmetic is exact, and rounding, overflow (the \<^verbatim>\<open>OverflowError\<close> of \<^verbatim>\<open>float\<close> on a
  huge integer) and the non-finite floats are outside the model. Strings are byte
  strings (ASCII).
\<close>

datatype pyval =
    VNone
  | VBool bool
  | VNum real
  | VStr string
  | VList "pyval list"
  | VDict "(string \<times> pyval) list"

type_synonym pydict = "(string \<times> pyval) list"

text \<open>Every \<^verbatim>\<open>raise\<close> of the interpreter is a value of the model.\<close>

datatype error = TypeError | ValueError | KeyError | IndexError | ZeroDivisionError

definition bindE :: "error + 'a \<Rightarrow> ('a \<Rightarrow> error + 'b) \<Rightarrow> error + 'b" where
  "bindE m f = (case m of Inl e \<Rightarrow> Inl e | Inr x \<Rightarrow> f x)"

subsection \<open>Dictionaries\<close>

text \<open>\<^verbatim>\<open>d.get(k)\<close> (\<open>None\<close> when the key is missing), \<^verbatim>\<open>d.get(k, dflt)\<close>,
  \<^verbatim>\<open>k in d\<close>, \<^verbatim>\<open>d[k]\<close> (raises \<^verbatim>\<open>KeyError\<close>) and \<^verbatim>\<open>d[k] = v\<close> (replaces in place,
  or appends a new key at the end).\<close>

definition dict_get :: "(string \<times> 'v) list \<Rightarrow> string \<Rightarrow> 'v option" where
  "dict_get d k = map_of d k"

definition get_or :: "pydict \<Rightarrow> string \<Rightarrow> pyval \<Rightarrow> pyval" where
  "get_or d k dflt = (case dict_get d k of None \<Rightarrow> dflt | Some v \<Rightarrow> v)"

definition getv :: "pydict \<Rightarrow> string \<Rightarrow> pyval" where
  "getv d k = get_or d k VNone"

definition has_key :: "(string \<times> 'v) list \<Rightarrow> string \<Rightarrow> bool" where
  "has_key d k = (dict_get d k \<noteq> None)"

definition dict_index :: "(string \<times> 'v) list \<Rightarrow> string \<Rightarrow> error + 'v" where
  "dict_index d k = (case dict_get d k of None \<Rightarrow> Inl KeyError | Some v \<Rightarrow> Inr v)"

fun dict_set :: "(string \<times> 'v) list \<Rightarrow> string \<Rightarrow> 'v \<Rightarrow> (string \<times> 'v) list" where
  "dict_set [] k v = [(k, v)]"
| "dict_set ((k', v') # d) k v = (if k' = k then (k, v) # d else (k', v') # dict_set d k v)"

subsection \<open>Builtins\<close>

text \<open>Truth value of an object (\<^verbatim>\<open>bool(x)\<close>, \<^verbatim>\<open>x or y\<close>, \<^verbatim>\<open>if x\<close>).\<close>

fun truthy :: "pyval \<Rightarrow> bool" where
  "truthy VNone = False"
| "truthy (VBool b) = b"
| "truthy (VNum r) = (r \<noteq> 0)"
| "truthy (VStr s) = (s \<noteq> [])"
| "truthy (VList xs) = (xs \<noteq> [])"
| "truthy (VDict d) = (d \<noteq> [])"

definition py_or :: "pyval \<Rightarrow> pyval \<Rightarrow> pyval" where
  "py_or a b = (if truthy a then a else b)"

fun is_dict :: "pyval \<Rightarrow> bool" where
  "is_dict (VDict d) = True"
| "is_dict _ = False"

fun is_str :: "pyval \<Rightarrow> bool" where
  "is_str (VStr s) = True"
| "is_str _ = False"

text \<open>The number behind a numeric object; \<^verbatim>\<open>bool\<close> is a subclass of \<^verbatim>\<open>int\<close>.\<close>

fun num_of :: "pyval \<Rightarrow> real option" where
  "num_of (VNum r) = Some r"
| "num_of (VBool b) = Some (if b then 1 else 0)"
| "num_of _ = None"

text \<open>
  \<^verbatim>\<open>float(s)\<close> on a string: surrounding whitespace is stripped, then an optional sign,
  a decimal number (digits, with single underscores between digits, and an optional
  point) and an optional exponent. The literals for infinity and not-a-number have no
  real value and are not accepted here.
\<close>

definition is_space :: "char \<Rightarrow> bool" where
  "is_space c = (let n = (of_char c :: nat) in (9 \<le> n \<and> n \<le> 13) \<or> n = 32)"

definition strip :: "string \<Rightarrow> string" where
  "strip s = rev (dropWhile is_space (rev (dropWhile is_space s)))"

definition is_digit :: "char \<Rightarrow> bool" where
  "is_digit c = (let n = (of_char c :: nat) in 48 \<le> n \<and> n \<le> 57)"

definition digit_val :: "char \<Rightarrow> nat" where
  "digit_val c = (of_char c :: nat) - 48"

text \<open>A digit part: \<^verbatim>\<open>digit (["_"] digit)*\<close>; the result is the list of its digits.\<close>

fun digitpart :: "string \<Rightarrow> nat list option" where
  "digitpart [] = None"
| "digitpart [c] = (if is_digit c then Some [digit_val c] else None)"
| "digitpart (c # d # cs) =
     (if \<not> is_digit c then None
      else if d = CHR ''_'' then map_option (\<lambda>ds. digit_val c # ds) (digitpart cs)
      else map_option (\<lambda>ds. digit_val c # ds) (digitpart (d # cs)))"

definition digits_val :: "nat list \<Rightarrow> nat" where
  "digits_val ds = foldl (\<lambda>a d. 10 * a + d) 0 ds"

text \<open>Splits off an optional sign: the factor and the rest.\<close>

fun sign_split :: "string \<Rightarrow> int \<times> string" where
  "sign_split (c # cs) =
     (if c = CHR ''-'' then (-1, cs) else if c = CHR ''+'' then (1, cs) else (1, c # cs))"
| "sign_split [] = (1, [])"

definition cut_at :: "(char \<Rightarrow> bool) \<Rightarrow> string \<Rightarrow> string \<times> string option" where
  "cut_at p s = (takeWhile (\<lambda>c. \<not> p c) s,
                 case dropWhile (\<lambda>c. \<not> p c) s of [] \<Rightarrow> None | _ # r \<Rightarrow> Some r)"

definition parse_mantissa :: "string \<Rightarrow> real option" where
  "parse_mantissa s =
     (case cut_at (\<lambda>c. c = CHR ''.'') s of
        (ip, None) \<Rightarrow> map_option (\<lambda>ds. real (digits_val ds)) (digitpart ip)
      | (ip, Some fp) \<Rightarrow>
          (if ip = [] \<and> fp = [] then None
           else case (if ip = [] then Some [] else digitpart ip,
                      if fp = [] then Some [] else digitpart fp) of
                  (Some ids, Some fds) \<Rightarrow>
                     Some (real (digits_val ids) + real (digits_val fds) / 10 ^ length fds)
                | _ \<Rightarrow> None))"

definition parse_exponent :: "string option \<Rightarrow> int option" where
  "parse_exponent e =
     (case e of
        None \<Rightarrow> Some 0
      | Some s \<Rightarrow> (case sign_split s of (sg, r) \<Rightarrow>
                     map_option (\<lambda>ds. sg * int (digits_val ds)) (digitpart r)))"

definition float_of_str :: "string \<Rightarrow> real option" where
  "float_of_str s =
     (case sign_split (strip s) of (sg, r) \<Rightarrow>
        (case cut_at (\<lambda>c. c = CHR ''e'' \<or> c = CHR ''E'') r of (m, e) \<Rightarrow>
           (case (parse_mantissa m, parse_exponent e) of
              (Some x, Some k) \<Rightarrow>
                 Some (real_of_int sg * (if 0 \<le> k then x * 10 ^ nat k else x / 10 ^ nat (- k)))
            | _ \<Rightarrow> None)))"

text \<open>\<^verbatim>\<open>float(v)\<close>: \<^verbatim>\<open>ValueError\<close> for a string that is no number, \<^verbatim>\<open>TypeError\<close> for
  \<^verbatim>\<open>None\<close>, a list or a dict.\<close>

fun py_float :: "pyval \<Rightarrow> error + real" where
  "py_float (VNum r) = Inr r"
| "py_float (VBool b) = Inr (if b then 1 else 0)"
| "py_float (VStr s) = (case float_of_str s of None \<Rightarrow> Inl ValueError | Some r \<Rightarrow> Inr r)"
| "py_float _ = Inl TypeError"

text \<open>\<^verbatim>\<open>a + b\<close>: numbers add, two strings or two lists concatenate, anything else is a
  \<^verbatim>\<open>TypeError\<close>.\<close>

fun py_add :: "pyval \<Rightarrow> pyval \<Rightarrow> error + pyval" where
  "py_add (VStr s) (VStr t) = Inr (VStr (s @ t))"
| "py_add (VList xs) (VList ys) = Inr (VList (xs @ ys))"
| "py_add a b = (case (num_of a, num_of b) of
                   (Some x, Some y) \<Rightarrow> Inr (VNum (x + y))
                 | _ \<Rightarrow> Inl TypeError)"

text \<open>\<^verbatim>\<open>c * b\<close> for a float constant \<open>c\<close>: a sequence cannot be multiplied by a float.\<close>

definition py_fmul :: "real \<Rightarrow> pyval \<Rightarrow> error + pyval" where
  "py_fmul c b = (case num_of b of Some y \<Rightarrow> Inr (VNum (c * y)) | None \<Rightarrow> Inl TypeError)"

text \<open>\<^verbatim>\<open>x / y\<close> on floats raises \<^verbatim>\<open>ZeroDivisionError\<close> when \<open>y\<close> is zero.\<close>

definition py_div :: "real \<Rightarrow> real \<Rightarrow> error + real" where
  "py_div x y = (if y = 0 then Inl ZeroDivisionError else Inr (x / y))"

text \<open>\<^verbatim>\<open>s.lower()\<close> and \<^verbatim>\<open>s.startswith(p)\<close>. Strings are byte strings here, so
  \<open>lower\<close> maps the letters A to Z and leaves every other byte unchanged; the case
  mapping of letters outside ASCII is outside the model.\<close>

definition lower_char :: "char \<Rightarrow> char" where
  "lower_char c = (let n = (of_char c :: nat) in if 65 \<le> n \<and> n \<le> 90 then char_of (n + 32) else c)"

definition lower :: "string \<Rightarrow> string" where
  "lower s = map lower_char s"

definition startswith :: "string \<Rightarrow> string \<Rightarrow> bool" where
  "startswith s p = (take (length p) s = p)"

section \<open>Scalar normalizers\<close>

definition clamp :: "real \<Rightarrow> real \<Rightarrow> real \<Rightarrow> real" where
  "clamp x lo hi = max lo (min hi x)"

text \<open>\<^verbatim>\<open>to100\<close>: any exception of \<^verbatim>\<open>float(v)\<close> is caught and gives \<^verbatim>\<open>None\<close>.\<close>

definition to100 :: "pyval \<Rightarrow> real option" where
  "to100 v = (case py_float v of
                Inl e \<Rightarrow> None
              | Inr x \<Rightarrow> Some (clamp (if x \<le> 1 then x * 100 else x) 0 100))"

definition inv100 :: "pyval \<Rightarrow> real option" where
  "inv100 v = (case to100 v of None \<Rightarrow> None | Some x \<Rightarrow> Some (100 - x))"

definition minmax :: "pyval \<Rightarrow> real \<Rightarrow> real \<Rightarrow> real option" where
  "minmax v vmin vmax =
     (case py_float v of
        Inl e \<Rightarrow> None
      | Inr x \<Rightarrow> if vmin = vmax then Some 0
                 else Some (clamp ((x - vmin) / (vmax - vmin) * 100) 0 100))"

definition talk_balance_score :: "pyval \<Rightarrow> real option" where
  "talk_balance_score ratio =
     (case py_float ratio of
        Inl e \<Rightarrow> None
      | Inr r \<Rightarrow> Some (clamp (100 - \<bar>r - 0.5\<bar> * 200) 0 100))"

text \<open>\<^verbatim>\<open>_avg(*vals)\<close> and \<^verbatim>\<open>_wavg(vals, weights)\<close> skip the absent values.\<close>

definition avg :: "real option list \<Rightarrow> real option" where
  "avg vals = (let v = map the (filter (\<lambda>x. x \<noteq> None) vals)
               in if v \<noteq> [] then Some (sum_list v / real (length v)) else None)"

definition wavg :: "real option list \<Rightarrow> real list \<Rightarrow> real option" where
  "wavg vals weights =
     (let pts = map (\<lambda>(v, w). (the v, w)) (filter (\<lambda>(v, w). v \<noteq> None) (zip vals weights))
      in if pts = [] then None
         else let sw = sum_list (map snd pts)
              in if sw \<le> 0 then None
                 else Some (sum_list (map (\<lambda>(v, w). v * w) pts) / sw))"

section \<open>Metric normalizer\<close>

text \<open>
  \<^verbatim>\<open>dict(x)\<close> builds a new dictionary: a copy of a dict, or the dictionary of a list of
  two-element sequences. A number, a boolean or \<^verbatim>\<open>None\<close> is not iterable
  (\<^verbatim>\<open>TypeError\<close>); an element that is not a sequence of length two is a
  \<^verbatim>\<open>ValueError\<close>; a list or a dict is not hashable as a key (\<^verbatim>\<open>TypeError\<close>).
  Every lookup of the normalizer uses a string key, so an entry under a key that is not
  a string can never be found and is left out of the copy.
\<close>

fun pair_of :: "pyval \<Rightarrow> error + (pyval \<times> pyval)" where
  "pair_of (VList xs) = (case xs of [k, v] \<Rightarrow> Inr (k, v) | _ \<Rightarrow> Inl ValueError)"
| "pair_of (VStr s) = (case s of [a, b] \<Rightarrow> Inr (VStr [a], VStr [b]) | _ \<Rightarrow> Inl ValueError)"
| "pair_of (VDict d) =
     (case d of [(a, _), (b, _)] \<Rightarrow> Inr (VStr a, VStr b) | _ \<Rightarrow> Inl ValueError)"
| "pair_of _ = Inl TypeError"

fun dict_of_pairs :: "pydict \<Rightarrow> pyval list \<Rightarrow> error + pydict" where
  "dict_of_pairs acc [] = Inr acc"
| "dict_of_pairs acc (x # xs) =
     bindE (pair_of x) (\<lambda>(k, v).
       case k of
         VStr s \<Rightarrow> dict_of_pairs (dict_set acc s v) xs
       | VList _ \<Rightarrow> Inl TypeError
       | VDict _ \<Rightarrow> Inl TypeError
       | _ \<Rightarrow> dict_of_pairs acc xs)"

fun py_dict :: "pyval \<Rightarrow> error + pydict" where
  "py_dict (VDict d) = Inr d"
| "py_dict (VList xs) = dict_of_pairs [] xs"
| "py_dict (VStr s) = (if s = [] then Inr [] else Inl ValueError)"
| "py_dict _ = Inl TypeError"

text \<open>\<^verbatim>\<open>dict(spiky.get(k) or {})\<close>.\<close>

definition section_dict :: "pydict \<Rightarrow> string \<Rightarrow> error + pydict" where
  "section_dict spiky k = py_dict (py_or (getv spiky k) (VDict []))"

text \<open>The Normalized Sub-Metric Set under construction: \<^verbatim>\<open>out\<close>. A value is a float
  or \<^verbatim>\<open>None\<close>.\<close>

type_synonym metrics = "(string \<times> real option) list"

text \<open>Lines 56--64: positivity.\<close>

definition norm_positivity :: "pydict \<Rightarrow> metrics \<Rightarrow> error + metrics" where
  "norm_positivity L out =
     (let pos_classes =
            py_or (py_or (getv L ''positivity_classes'') (getv L ''polarity''))
                  (if is_dict (getv L ''positivity'') then getv L ''positivity'' else VNone)
      in case pos_classes of
           VDict pc \<Rightarrow>
             bindE (py_float (get_or pc ''positive'' (VNum 0))) (\<lambda>p.
             bindE (py_float (get_or pc ''neutral'' (VNum 0))) (\<lambda>neu.
             bindE (py_float (get_or pc ''negative'' (VNum 0))) (\<lambda>neg.
               Inr (dict_set (dict_set out ''positivity'' (to100 (VNum (p + 0.5 * neu))))
                      ''negativity_inv'' (Some (100 - (if neg \<le> 1 then neg * 100 else neg)))))))
         | _ \<Rightarrow>
             Inr (if has_key L ''positivity''
                  then dict_set out ''positivity'' (to100 (getv L ''positivity''))
                  else out))"

text \<open>Lines 66--70: objectivity.\<close>

definition norm_objectivity :: "pydict \<Rightarrow> metrics \<Rightarrow> metrics" where
  "norm_objectivity L out =
     (let obj = getv L ''objectivity''
      in case obj of
           VDict od \<Rightarrow> dict_set out ''objectivity'' (to100 (get_or od ''objective'' (VNum 0)))
         | VNone \<Rightarrow> out
         | _ \<Rightarrow> dict_set out ''objectivity'' (to100 obj))"

text \<open>Lines 72--78: filler ratio, sentence length, patience, keywords, curiosity.\<close>

definition norm_keywords :: "pydict \<Rightarrow> metrics \<Rightarrow> metrics" where
  "norm_keywords L out =
     (case getv L ''keywords'' of
        VDict kw \<Rightarrow>
          if kw \<noteq> [] then
            (let vals = map the (filter (\<lambda>x. x \<noteq> None) (map (\<lambda>(k, v). to100 v) kw))
             in if vals \<noteq> [] then dict_set out ''kw_strength'' (Some (sum_list vals / real (length vals)))
                else out)
          else out
      | _ \<Rightarrow> out)"

definition norm_language_scalars :: "pydict \<Rightarrow> metrics \<Rightarrow> metrics" where
  "norm_language_scalars L out =
     (let out1 = (if has_key L ''filler_ratio''
                  then dict_set out ''filler_inv'' (inv100 (getv L ''filler_ratio'')) else out);
          out2 = (if has_key L ''avg_sentence_len''
                  then dict_set out1 ''avg_sentence_len_norm'' (minmax (getv L ''avg_sentence_len'') 4 25)
                  else out1);
          out3 = (if has_key L ''patience''
                  then dict_set out2 ''patience_norm'' (minmax (getv L ''patience'') 0 180) else out2);
          out4 = norm_keywords L out3
      in if has_key L ''lang_emo_curiosity''
         then dict_set out4 ''lang_emo_curiosity'' (to100 (getv L ''lang_emo_curiosity''))
         else out4)"

text \<open>Lines 80--89: question and offensiveness. These statements write into \<open>L\<close>, the
  engine's own copy of the language section.\<close>

definition question_flag :: "pydict \<Rightarrow> pydict" where
  "question_flag L =
     (case getv L ''question'' of
        VStr s \<Rightarrow> dict_set L ''question'' (VNum (if startswith (lower s) ''question'' then 1 else 0))
      | _ \<Rightarrow> L)"

definition question_ratio :: "pydict \<Rightarrow> pydict" where
  "question_ratio L =
     (if \<not> has_key L ''question_ratio'' \<and> has_key L ''question'' then
        (let q = getv L ''question'';
             qv = (case py_float q of Inr x \<Rightarrow> x | Inl e \<Rightarrow> if truthy q then 1 else 0)
         in dict_set L ''question_ratio'' (VNum qv))
      else L)"

definition offensiveness_flag :: "pydict \<Rightarrow> pydict" where
  "offensiveness_flag L =
     (case getv L ''offensiveness'' of
        VStr s \<Rightarrow> dict_set L ''offensiveness'' (VNum (if startswith (lower s) ''offen'' then 1 else 0))
      | _ \<Rightarrow> L)"

definition norm_question :: "pydict \<Rightarrow> metrics \<Rightarrow> metrics" where
  "norm_question L out =
     (let L1 = question_flag L;
          L2 = question_ratio L1;
          out1 = (if has_key L2 ''question_ratio''
                  then dict_set out ''question_ratio'' (to100 (getv L2 ''question_ratio'')) else out);
          L3 = offensiveness_flag L2
      in if has_key L3 ''offensiveness''
         then dict_set out1 ''offensiveness_inv'' (inv100 (getv L3 ''offensiveness''))
         else out1)"

definition norm_language :: "pydict \<Rightarrow> metrics \<Rightarrow> error + metrics" where
  "norm_language L out =
     bindE (norm_positivity L out) (\<lambda>out1.
       Inr (norm_question L (norm_language_scalars L (norm_objectivity L out1))))"

text \<open>Lines 91--96: vocal energy. The comparison \<^verbatim>\<open>V["energy"] <= 1\<close> is between the
  raw field value and a number: a \<^verbatim>\<open>TypeError\<close> unless the value is a number.\<close>

definition energy_flag :: "pydict \<Rightarrow> error + pydict" where
  "energy_flag V =
     (case getv V ''energy'' of
        VDict en \<Rightarrow>
          bindE (py_float (get_or en ''energetic'' (VNum 0))) (\<lambda>ener.
          bindE (py_float (get_or en ''monotonic'' (VNum 0))) (\<lambda>mono.
            Inr (dict_set V ''energy'' (VNum (if ener > 0 then ener else 1 - mono)))))
      | _ \<Rightarrow> Inr V)"

definition norm_energy :: "pydict \<Rightarrow> metrics \<Rightarrow> error + metrics" where
  "norm_energy V out =
     bindE (energy_flag V) (\<lambda>V1.
       if has_key V1 ''energy'' then
         (let e = getv V1 ''energy''
          in case num_of e of
               None \<Rightarrow> Inl TypeError
             | Some r \<Rightarrow> Inr (dict_set out ''energy'' (to100 (if r \<le> 1 then e else VNum (r / 100)))))
       else Inr out)"

text \<open>Lines 98--105: vocal emotions.\<close>

definition norm_vocal_emotions :: "pydict \<Rightarrow> metrics \<Rightarrow> error + metrics" where
  "norm_vocal_emotions V out =
     (case py_or (getv V ''emotions'') (VDict []) of
        VDict ve \<Rightarrow>
          if ve \<noteq> [] then
            (let emo_pos = getv ve ''happy'';
                 emo_neu = getv ve ''neutral''
             in bindE (py_add (py_or (get_or ve ''sad'' (VNum 0)) (VNum 0))
                              (py_or (get_or ve ''angry'' (VNum 0)) (VNum 0))) (\<lambda>emo_neg.
                  let out1 = (if emo_pos \<noteq> VNone then dict_set out ''emo_pos'' (to100 emo_pos) else out);
                      out2 = (if emo_neu \<noteq> VNone then dict_set out1 ''emo_neu'' (to100 emo_neu) else out1)
                  in Inr (dict_set out2 ''emo_neg_inv'' (inv100 emo_neg))))
          else Inr out
      | _ \<Rightarrow> Inr out)"

text \<open>Lines 107--116: facial attention.\<close>

definition norm_attention :: "pydict \<Rightarrow> metrics \<Rightarrow> error + metrics" where
  "norm_attention F out =
     (case py_or (getv F ''attention'') (VDict []) of
        VDict att \<Rightarrow>
          if att \<noteq> [] then
            (let att_att = getv att ''attentive'';
                 att_norm = getv att ''normal'';
                 att_dist = getv att ''distracted''
             in bindE (if att_att \<noteq> VNone \<or> att_norm \<noteq> VNone
                       then bindE (py_fmul 0.5 (py_or att_norm (VNum 0))) (\<lambda>h.
                            bindE (py_add (py_or att_att (VNum 0)) h) (\<lambda>a. Inr (Some a)))
                       else Inr None) (\<lambda>att_val.
                  let out1 = (case att_val of
                                Some a \<Rightarrow> dict_set out ''attention_att'' (to100 a)
                              | None \<Rightarrow> out)
                  in Inr (if att_dist \<noteq> VNone
                          then dict_set out1 ''attention_dist_inv'' (inv100 att_dist)
                          else out1)))
          else Inr out
      | _ \<Rightarrow> Inr out)"

text \<open>Lines 118--125: facial emotions.\<close>

definition norm_facial_emotions :: "pydict \<Rightarrow> metrics \<Rightarrow> error + metrics" where
  "norm_facial_emotions F out =
     (case py_or (getv F ''emotions'') (VDict []) of
        VDict fe \<Rightarrow>
          if fe \<noteq> [] then
            (let pos = getv fe ''happy''
             in bindE (py_add (py_or (get_or fe ''neutral'' (VNum 0)) (VNum 0))
                              (py_or (get_or fe ''surprised'' (VNum 0)) (VNum 0))) (\<lambda>neu.
                bindE (py_add (py_or (get_or fe ''dissatisfied'' (VNum 0)) (VNum 0))
                              (py_or (get_or fe ''annoyed'' (VNum 0)) (VNum 0))) (\<lambda>dis.
                  let out1 = (if pos \<noteq> VNone then dict_set out ''facial_emo_pos'' (to100 pos) else out);
                      out2 = dict_set out1 ''facial_emo_neu'' (to100 neu)
                  in Inr (dict_set out2 ''facial_emo_dis_inv'' (inv100 dis)))))
          else Inr out
      | _ \<Rightarrow> Inr out)"

text \<open>Lines 127--131: interaction and high-level metrics.\<close>

definition norm_interaction :: "pydict \<Rightarrow> metrics \<Rightarrow> metrics" where
  "norm_interaction I out =
     (let out1 = (if has_key I ''talk_listen''
                  then dict_set out ''talk_balance'' (talk_balance_score (getv I ''talk_listen''))
                  else out)
      in if has_key I ''speed_wpm''
         then dict_set out1 ''speed_norm'' (minmax (getv I ''speed_wpm'') 90 180)
         else out1)"

definition norm_highlevel :: "pydict \<Rightarrow> metrics \<Rightarrow> metrics" where
  "norm_highlevel H out =
     (let out1 = (if has_key H ''action_items''
                  then dict_set out ''action_items'' (to100 (getv H ''action_items'')) else out)
      in if has_key H ''followup_questions''
         then dict_set out1 ''followup_questions'' (to100 (getv H ''followup_questions''))
         else out1)"

definition normalize_metrics :: "pydict \<Rightarrow> error + metrics" where
  "normalize_metrics spiky =
     bindE (section_dict spiky ''language'') (\<lambda>L.
     bindE (section_dict spiky ''vocal'') (\<lambda>V.
     bindE (section_dict spiky ''facial'') (\<lambda>F.
     bindE (section_dict spiky ''interaction'') (\<lambda>I.
     bindE (section_dict spiky ''highlevel'') (\<lambda>H.
     bindE (norm_language L []) (\<lambda>out1.
     bindE (norm_energy V out1) (\<lambda>out2.
     bindE (norm_vocal_emotions V out2) (\<lambda>out3.
     bindE (norm_attention F out3) (\<lambda>out4.
     bindE (norm_facial_emotions F out4) (\<lambda>out5.
       Inr (norm_highlevel H (norm_interaction I out5))))))))))))"

section \<open>Curated metric builder\<close>

text \<open>\<^verbatim>\<open>norm.get(k)\<close> (the dictionary \<^verbatim>\<open>norm\<close> is \<open>nm\<close> here): the value, or
  \<^verbatim>\<open>None\<close> for a missing key and for a key whose value is \<^verbatim>\<open>None\<close>.\<close>

definition norm_get :: "metrics \<Rightarrow> string \<Rightarrow> real option" where
  "norm_get nm k = (case dict_get nm k of Some v \<Rightarrow> v | None \<Rightarrow> None)"

definition build_curated_metrics :: "metrics \<Rightarrow> (string \<times> real) list" where
  "build_curated_metrics nm =
     (let cur =
        [(''objectivity'', norm_get nm ''objectivity''),
         (''clarity_conciseness'', avg [norm_get nm ''filler_inv'', norm_get nm ''avg_sentence_len_norm'']),
         (''energy'', norm_get nm ''energy''),
         (''decision_orientation'', norm_get nm ''action_items''),
         (''followup_questions'', norm_get nm ''followup_questions''),
         (''novelty_ideation'', avg [norm_get nm ''kw_strength'', norm_get nm ''lang_emo_curiosity'']),
         (''attention_listening'',
            wavg [norm_get nm ''attention_att'', norm_get nm ''attention_dist_inv''] [0.7, 0.3]),
         (''talk_balance'', norm_get nm ''talk_balance''),
         (''patience'', norm_get nm ''patience_norm''),
         (''positivity_tone'',
            avg [norm_get nm ''positivity'', norm_get nm ''emo_pos'', norm_get nm ''emo_neg_inv''])]
      in map (\<lambda>(k, v). (k, the v)) (filter (\<lambda>(k, v). v \<noteq> None) cur))"

section \<open>Configuration\<close>

text \<open>
  The weight table, the multiplier table and the pattern catalog are read from
  \<^verbatim>\<open>config/weights.json\<close>, \<^verbatim>\<open>config/multipliers.json\<close> and \<^verbatim>\<open>config/patterns.json\<close>
  by \<^verbatim>\<open>load_weights\<close>, \<^verbatim>\<open>load_multipliers\<close> and \<^verbatim>\<open>load_patterns\<close>. The three
  documents are parameters of the model: dictionaries in document order, with numbers
  for weights and multipliers, and a name and an ordering for every catalog entry.
\<close>

record pattern_info =
  name :: string
  order :: "string list"

record config =
  weights :: "(string \<times> (string \<times> real) list) list"
  multipliers :: "(string \<times> real) list"
  patterns :: "(string \<times> pattern_info) list"

section \<open>Factor weighting engine\<close>

definition bases0 :: "(string \<times> real) list" where
  "bases0 = [(''Precision'', 0), (''Resolve'', 0), (''Innovation'', 0), (''Harmony'', 0)]"

text \<open>The inner loop \<^verbatim>\<open>for f, w in row.items(): bases[f] += float(s) * (float(w)/total)\<close>
  (\<open>tot\<close> stands for \<^verbatim>\<open>total\<close>);
  \<^verbatim>\<open>bases[f]\<close> raises \<^verbatim>\<open>KeyError\<close> for a factor that is not one of the four.\<close>

fun add_row :: "(string \<times> real) list \<Rightarrow> real \<Rightarrow> real \<Rightarrow> (string \<times> real) list
                  \<Rightarrow> error + (string \<times> real) list" where
  "add_row bases s tot [] = Inr bases"
| "add_row bases s tot ((f, w) # row) =
     bindE (dict_index bases f) (\<lambda>b.
     bindE (py_div w tot) (\<lambda>q.
       add_row (dict_set bases f (b + s * q)) s tot row))"

text \<open>The outer loop \<^verbatim>\<open>for m, s in curated.items()\<close>.\<close>

fun add_metrics :: "(string \<times> (string \<times> real) list) list \<Rightarrow> (string \<times> real) list
                      \<Rightarrow> (string \<times> real) list \<Rightarrow> error + (string \<times> real) list" where
  "add_metrics W bases [] = Inr bases"
| "add_metrics W bases ((m, s) # curated) =
     (case dict_get W m of
        None \<Rightarrow> add_metrics W bases curated
      | Some row \<Rightarrow>
          (let sm = sum_list (map snd row);
               tot = (if sm \<noteq> 0 then sm else 1)
           in bindE (add_row bases s tot row) (\<lambda>bases'. add_metrics W bases' curated)))"

definition base_factors :: "(string \<times> (string \<times> real) list) list \<Rightarrow> (string \<times> real) list
                       \<Rightarrow> error + (string \<times> real) list" where
  "base_factors W curated =
     bindE (add_metrics W bases0 curated) (\<lambda>bases.
       Inr (map (\<lambda>(k, b). (k, clamp b 0 100)) bases))"

section \<open>Pattern multiplier engine and alignment scorer\<close>

text \<open>\<^verbatim>\<open>xs[i]\<close> raises \<^verbatim>\<open>IndexError\<close> out of range.\<close>

definition list_index :: "'a list \<Rightarrow> nat \<Rightarrow> error + 'a" where
  "list_index xs i = (if i < length xs then Inr (xs ! i) else Inl IndexError)"

definition apply_pattern :: "(string \<times> real) list \<Rightarrow> (string \<times> real) list \<Rightarrow> string list
                        \<Rightarrow> error + (string \<times> real) list" where
  "apply_pattern M bases ord =
     bindE (list_index ord 0) (\<lambda>o0.
     bindE (list_index ord 1) (\<lambda>o1.
     bindE (list_index ord 2) (\<lambda>o2.
     bindE (list_index ord 3) (\<lambda>o3.
       let pmap = dict_set (dict_set (dict_set (dict_set [] o0 ''primary'') o1 ''secondary'')
                              o2 ''tertiary'') o3 ''quaternary''
       in Inr (map (\<lambda>(f, base).
                 let label = (case dict_get pmap f of None \<Rightarrow> ''quaternary'' | Some l \<Rightarrow> l);
                     mult = (case dict_get M label of None \<Rightarrow> 1 | Some m \<Rightarrow> m)
                 in (f, clamp (base * mult) 0 100)) bases)))))"

text \<open>\<^verbatim>\<open>math.sqrt(sum(x*x for x in v)) or 1.0\<close>.\<close>

definition norm_or_1 :: "real list \<Rightarrow> real" where
  "norm_or_1 v = (let n = sqrt (sum_list (map (\<lambda>x. x * x) v)) in if n \<noteq> 0 then n else 1)"

definition cosine_alignment :: "(string \<times> real) list \<Rightarrow> (string \<times> real) list \<Rightarrow> string list
                           \<Rightarrow> error + real" where
  "cosine_alignment M scores ord =
     bindE (dict_index M ''primary'') (\<lambda>m0.
     bindE (dict_index M ''secondary'') (\<lambda>m1.
     bindE (dict_index M ''tertiary'') (\<lambda>m2.
     bindE (dict_index M ''quaternary'') (\<lambda>m3.
       let tnorm = norm_or_1 [m0, m1, m2, m3]
       in bindE (py_div m0 tnorm) (\<lambda>t0.
          bindE (py_div m1 tnorm) (\<lambda>t1.
          bindE (py_div m2 tnorm) (\<lambda>t2.
          bindE (py_div m3 tnorm) (\<lambda>t3.
          bindE (bindE (list_index ord 0) (dict_index scores)) (\<lambda>s0.
          bindE (bindE (list_index ord 1) (dict_index scores)) (\<lambda>s1.
          bindE (bindE (list_index ord 2) (dict_index scores)) (\<lambda>s2.
          bindE (bindE (list_index ord 3) (dict_index scores)) (\<lambda>s3.
            let tvec = [t0, t1, t2, t3];
                svec = [s0, s1, s2, s3];
                snorm = norm_or_1 svec;
                dot = sum_list (map (\<lambda>(a, b). a * b) (zip svec tvec))
            in bindE (py_div dot (snorm * 1)) (\<lambda>sim.
                 Inr (clamp (sim * 100) 0 100))))))))))))))"

section \<open>Pattern catalog search\<close>

text \<open>\<^verbatim>\<open>round(x, 2)\<close>: to the nearest multiple of 1/100, a tie to the even one.\<close>

definition round_half_even :: "real \<Rightarrow> int" where
  "round_half_even y =
     (let f = \<lfloor>y\<rfloor>; d = y - of_int f
      in if d < 1 / 2 then f else if d > 1 / 2 then f + 1 else if even f then f else f + 1)"

definition round2 :: "real \<Rightarrow> real" where
  "round2 x = of_int (round_half_even (x * 100)) / 100"

text \<open>The dictionary \<^verbatim>\<open>score_one\<close> returns.\<close>

record result =
  factors :: "(string \<times> real) list"
  alignment_pct :: real
  curated :: "(string \<times> real) list"
  raw :: metrics

definition score_one :: "config \<Rightarrow> pydict \<Rightarrow> string list \<Rightarrow> error + result" where
  "score_one cfg spiky ord =
     bindE (normalize_metrics spiky) (\<lambda>s_norm.
       let s_cur = build_curated_metrics s_norm
       in bindE (base_factors (weights cfg) s_cur) (\<lambda>bases.
          bindE (apply_pattern (multipliers cfg) bases ord) (\<lambda>scores.
          bindE (cosine_alignment (multipliers cfg) scores ord) (\<lambda>align.
            Inr \<lparr>factors = map (\<lambda>(k, v). (lower k, round2 v)) scores,
                 alignment_pct = round2 align,
                 curated = s_cur,
                 raw = s_norm\<rparr>))))"

text \<open>\<^verbatim>\<open>int(s)\<close> on a string (whitespace stripped, optional sign, decimal digits) and
  \<^verbatim>\<open>str(i)\<close> on an integer.\<close>

definition py_int :: "string \<Rightarrow> error + int" where
  "py_int s =
     (case sign_split (strip s) of (sg, r) \<Rightarrow>
        (case digitpart r of
           None \<Rightarrow> Inl ValueError
         | Some ds \<Rightarrow> Inr (sg * int (digits_val ds))))"

fun nat_digits :: "nat \<Rightarrow> string" where
  "nat_digits n =
     (if n < 10 then [char_of (48 + n)] else nat_digits (n div 10) @ [char_of (48 + n mod 10)])"

definition py_str :: "int \<Rightarrow> string" where
  "py_str i = (if i < 0 then CHR ''-'' # nat_digits (nat (- i)) else nat_digits (nat i))"

text \<open>A scored catalog entry: the result of \<^verbatim>\<open>score_one\<close> together with the key
  \<^verbatim>\<open>"pattern"\<close>.\<close>

record pattern_tag =
  pid :: "int option"
  pname :: string
  porder :: "string list"

record entry = result +
  pattern :: pattern_tag

definition tagged :: "result \<Rightarrow> pattern_tag \<Rightarrow> entry" where
  "tagged res tag = \<lparr>factors = factors res, alignment_pct = alignment_pct res,
                      curated = curated res, raw = raw res, pattern = tag\<rparr>"

text \<open>The loop of \<^verbatim>\<open>score_all_patterns\<close> over \<^verbatim>\<open>patterns.items()\<close>, with the loop
  state \<^verbatim>\<open>best\<close>, \<^verbatim>\<open>all_scores\<close>.\<close>

fun score_loop :: "config \<Rightarrow> pydict \<Rightarrow> entry option \<Rightarrow> (string \<times> entry) list
                     \<Rightarrow> (string \<times> pattern_info) list
                     \<Rightarrow> error + (entry option \<times> (string \<times> entry) list)" where
  "score_loop cfg spiky best all_scores [] = Inr (best, all_scores)"
| "score_loop cfg spiky best all_scores ((p, pinfo) # ps) =
     bindE (score_one cfg spiky (order pinfo)) (\<lambda>res.
     bindE (py_int p) (\<lambda>i.
       let e = tagged res \<lparr>pid = Some i, pname = name pinfo, porder = order pinfo\<rparr>;
           all_scores' = dict_set all_scores p e;
           best' = (case best of
                      None \<Rightarrow> Some e
                    | Some b \<Rightarrow> if alignment_pct res > alignment_pct b then Some e else Some b)
       in score_loop cfg spiky best' all_scores' ps))"

text \<open>The dictionary \<^verbatim>\<open>{"best": best, "all": all_scores}\<close>.\<close>

record response =
  best :: "entry option"
  all :: "(string \<times> entry) list"

definition score_all_patterns :: "config \<Rightarrow> pydict \<Rightarrow> error + response" where
  "score_all_patterns cfg spiky =
     bindE (score_loop cfg spiky None [] (patterns cfg)) (\<lambda>(b, a). Inr \<lparr>best = b, all = a\<rparr>)"

section \<open>The scoring endpoint\<close>

text \<open>\<^verbatim>\<open>ScoreRequest\<close>: the validated request body. \<^verbatim>\<open>score\<close> turns every exception
  into an HTTP 400 response.\<close>

record score_request =
  spiky :: pydict
  pattern_id :: "int option"
  pattern_name :: "string option"
  bcat_pattern :: "string list option"

datatype http_error = HTTP400 error

text \<open>Truth values of the three optional selectors.\<close>

definition id_given :: "score_request \<Rightarrow> bool" where
  "id_given req = (case pattern_id req of None \<Rightarrow> False | Some i \<Rightarrow> i \<noteq> 0)"

definition name_given :: "score_request \<Rightarrow> bool" where
  "name_given req = (case pattern_name req of None \<Rightarrow> False | Some n \<Rightarrow> n \<noteq> [])"

definition order_given :: "score_request \<Rightarrow> bool" where
  "order_given req = (case bcat_pattern req of None \<Rightarrow> False | Some l \<Rightarrow> l \<noteq> [])"

text \<open>Lines 27--35 of \<^verbatim>\<open>api.py\<close>: the ordering a selector stands for.\<close>

definition resolve_order :: "config \<Rightarrow> score_request \<Rightarrow> error + string list" where
  "resolve_order cfg req =
     (if order_given req then Inr (the (bcat_pattern req))
      else if id_given req \<and> has_key (patterns cfg) (py_str (the (pattern_id req)))
      then bindE (dict_index (patterns cfg) (py_str (the (pattern_id req)))) (\<lambda>p. Inr (order p))
      else if name_given req
      then (case find (\<lambda>(k, v). lower (name v) = lower (the (pattern_name req))) (patterns cfg) of
              None \<Rightarrow> Inl ValueError
            | Some (k, v) \<Rightarrow> Inr (order v))
      else bindE (dict_index (patterns cfg) ''15'') (\<lambda>p. Inr (order p)))"

definition score :: "config \<Rightarrow> score_request \<Rightarrow> http_error + response" where
  "score cfg req =
     (case (if id_given req \<or> name_given req \<or> order_given req then
              bindE (resolve_order cfg req) (\<lambda>ord.
              bindE (score_one cfg (spiky req) ord) (\<lambda>res.
                Inr \<lparr>best = Some (tagged res \<lparr>pid = None, pname = ''custom'', porder = ord\<rparr>),
                     all = []\<rparr>))
            else score_all_patterns cfg (spiky req)) of
        Inl e \<Rightarrow> Inl (HTTP400 e)
      | Inr r \<Rightarrow> Inr r)"

section \<open>Vocabulary of the specification\<close>

text \<open>The four factor names, the four rank labels, and a valid pattern: an ordering
  that contains each factor name exactly once.\<close>

definition factor_names :: "string list" where
  "factor_names = [''Precision'', ''Resolve'', ''Innovation'', ''Harmony'']"

definition rank_labels :: "string list" where
  "rank_labels = [''primary'', ''secondary'', ''tertiary'', ''quaternary'']"

definition valid_pattern :: "string list \<Rightarrow> bool" where
  "valid_pattern ord = (length ord = 4 \<and> distinct ord \<and> set ord = set factor_names)"

text \<open>\<open>first_max es b\<close>: \<open>b\<close> is the first entry of \<open>es\<close> with the greatest alignment.\<close>

definition first_max :: "entry list \<Rightarrow> entry \<Rightarrow> bool" where
  "first_max es b =
     (\<exists>es1 es2. es = es1 @ b # es2
        \<and> (\<forall>e \<in> set es1. alignment_pct e < alignment_pct b)
        \<and> (\<forall>e \<in> set es2. alignment_pct e \<le> alignment_pct b))"

section \<open>Sample data\<close>

text \<open>A sample configuration and sample patterns, used to instantiate the theorems.\<close>

definition cfg0 :: config where
  "cfg0 = \<lparr>weights = [(''talk_balance'', [(''Harmony'', 1)])],
           multipliers = [(''primary'', 2), (''secondary'', 1), (''tertiary'', 1), (''quaternary'', 0.5)],
           patterns = [(''1'', \<lparr>name = ''Analyst'',
                              order = [''Precision'', ''Resolve'', ''Innovation'', ''Harmony'']\<rparr>),
                       (''15'', \<lparr>name = ''Mediator'',
                               order = [''Harmony'', ''Precision'', ''Resolve'', ''Innovation'']\<rparr>)]\<rparr>"

definition zero_result :: result where
  "zero_result = \<lparr>factors = [(''precision'', 0), (''resolve'', 0), (''innovation'', 0), (''harmony'', 0)],
                   alignment_pct = 0, curated = [], raw = []\<rparr>"

text \<open>A bundle with a perfectly balanced talk/listen ratio, three orderings, and the
  results of scoring that bundle.\<close>

definition bundle_talk :: pydict where
  "bundle_talk = [(''interaction'', VDict [(''talk_listen'', VNum 0.5)])]"

definition harmony_only :: "real \<Rightarrow> (string \<times> real) list" where
  "harmony_only h = [(''Precision'', 0), (''Resolve'', 0), (''Innovation'', 0), (''Harmony'', h)]"

definition PRIH :: "string list" where
  "PRIH = [''Precision'', ''Resolve'', ''Innovation'', ''Harmony'']"

definition HPRI :: "string list" where
  "HPRI = [''Harmony'', ''Precision'', ''Resolve'', ''Innovation'']"

definition PPRI :: "string list" where
  "PPRI = [''Precision'', ''Precision'', ''Resolve'', ''Innovation'']"

definition talk_result :: "real \<Rightarrow> real \<Rightarrow> result" where
  "talk_result h a =
     \<lparr>factors = [(''precision'', 0), (''resolve'', 0), (''innovation'', 0), (''harmony'', h)],
      alignment_pct = a,
      curated = [(''talk_balance'', 100)],
      raw = [(''talk_balance'', Some 100)]\<rparr>"

definition entry_1 :: entry where
  "entry_1 = tagged (talk_result 50 20) \<lparr>pid = Some 1, pname = ''Analyst'', porder = PRIH\<rparr>"

definition entry_15 :: entry where
  "entry_15 = tagged (talk_result 100 80) \<lparr>pid = Some 15, pname = ''Mediator'', porder = HPRI\<rparr>"

text \<open>Bundles with one unusual field each.\<close>

definition bundle_energy_text :: pydict where
  "bundle_energy_text = [(''vocal'', VDict [(''energy'', VStr ''abc'')])]"

definition bundle_negative_500 :: pydict where
  "bundle_negative_500 = [(''language'', VDict [(''polarity'', VDict [(''negative'', VNum 500)])])]"

definition bundle_happy_voice :: pydict where
  "bundle_happy_voice = [(''vocal'', VDict [(''emotions'', VDict [(''happy'', VNum 0.9)])])]"

definition bundle_happy_face :: pydict where
  "bundle_happy_face = [(''facial'', VDict [(''emotions'', VDict [(''happy'', VNum 0.9)])])]"

definition bundle_filler_text :: pydict where
  "bundle_filler_text = [(''language'', VDict [(''filler_ratio'', VStr ''abc'')])]"

section \<open>The signal bundle as shared objects\<close>

text \<open>
  A Python dict is an object with an identity: \<^verbatim>\<open>L["question"] = ...\<close> changes the
  object that \<open>L\<close> refers to, for every holder of a reference to it. The store holds the
  dict objects by address. The caller's document refers to its section mappings by
  address (\<open>Ref\<close>); any other top-level value is held by value (\<open>Val\<close>). The values
  inside a section mapping are held by value: the engine reads them and never assigns
  to an item of a nested mapping. The document itself is only read, with
  \<^verbatim>\<open>spiky.get\<close>. The functions with the store threaded through carry the suffix
  \<open>_h\<close>.
\<close>

type_synonym addr = nat

type_synonym store = "pydict list"

datatype sval = Val pyval | Ref addr

type_synonym document = "(string \<times> sval) list"

definition obj :: "store \<Rightarrow> addr \<Rightarrow> pydict" where
  "obj h a = (if a < length h then h ! a else [])"

text \<open>The object at \<open>a\<close> after an assignment to one of its items has the contents \<open>d\<close>.\<close>

definition obj_set :: "store \<Rightarrow> addr \<Rightarrow> pydict \<Rightarrow> store" where
  "obj_set h a d = (if a < length h then h[a := d] else h)"

text \<open>A new dict object; its address is the next free one.\<close>

definition alloc :: "store \<Rightarrow> pydict \<Rightarrow> store \<times> addr" where
  "alloc h d = (h @ [d], length h)"

text \<open>The document as a value: every reference replaced by the contents of its object.\<close>

definition deref :: "store \<Rightarrow> sval \<Rightarrow> pyval" where
  "deref h v = (case v of Val x \<Rightarrow> x | Ref a \<Rightarrow> VDict (obj h a))"

definition snapshot :: "store \<Rightarrow> document \<Rightarrow> pydict" where
  "snapshot h doc = map (\<lambda>(k, v). (k, deref h v)) doc"

text \<open>A statement sequence that may raise, with the store threaded through: the
  store after it, together with the exception or the value.\<close>

definition bindH :: "store \<times> (error + 'a) \<Rightarrow> (store \<Rightarrow> 'a \<Rightarrow> store \<times> (error + 'b))
                     \<Rightarrow> store \<times> (error + 'b)" where
  "bindH m f = (case m of (h, r) \<Rightarrow> (case r of Inl e \<Rightarrow> (h, Inl e) | Inr x \<Rightarrow> f h x))"

text \<open>Lines 50--54: \<^verbatim>\<open>dict(spiky.get(k) or {})\<close> builds a new object from the contents
  of the section mapping (or of the empty dict); the result is its address.\<close>

definition section_copy :: "store \<Rightarrow> document \<Rightarrow> string \<Rightarrow> store \<times> (error + addr)" where
  "section_copy h doc k =
     (case py_dict (py_or (case dict_get doc k of None \<Rightarrow> VNone | Some v \<Rightarrow> deref h v) (VDict [])) of
        Inl e \<Rightarrow> (h, Inl e)
      | Inr d \<Rightarrow> (case alloc h d of (h', a) \<Rightarrow> (h', Inr a)))"

text \<open>Lines 80--89 on the object at \<open>La\<close> (the variable \<open>L\<close>): lines 81, 85 and 88
  assign to its items.\<close>

definition norm_question_h :: "store \<Rightarrow> addr \<Rightarrow> metrics \<Rightarrow> store \<times> (error + metrics)" where
  "norm_question_h h La out =
     (let h1 = obj_set h La (question_flag (obj h La));
          h2 = obj_set h1 La (question_ratio (obj h1 La));
          out1 = (if has_key (obj h2 La) ''question_ratio''
                  then dict_set out ''question_ratio'' (to100 (getv (obj h2 La) ''question_ratio''))
                  else out);
          h3 = obj_set h2 La (offensiveness_flag (obj h2 La))
      in (h3, Inr (if has_key (obj h3 La) ''offensiveness''
                   then dict_set out1 ''offensiveness_inv'' (inv100 (getv (obj h3 La) ''offensiveness''))
                   else out1)))"

text \<open>Lines 91--96 on the object at \<open>Va\<close> (the variable \<open>V\<close>): line 94 assigns to its
  item \<^verbatim>\<open>"energy"\<close>.\<close>

definition norm_energy_h :: "store \<Rightarrow> addr \<Rightarrow> metrics \<Rightarrow> store \<times> (error + metrics)" where
  "norm_energy_h h Va out =
     bindH (h, energy_flag (obj h Va)) (\<lambda>h V1.
       let h1 = obj_set h Va V1
       in (h1,
           if has_key (obj h1 Va) ''energy'' then
             (let e = getv (obj h1 Va) ''energy''
              in case num_of e of
                   None \<Rightarrow> Inl TypeError
                 | Some r \<Rightarrow> Inr (dict_set out ''energy'' (to100 (if r \<le> 1 then e else VNum (r / 100)))))
           else Inr out))"

text \<open>
  \<^verbatim>\<open>normalize_metrics\<close> with the store threaded through. \<open>La\<close>, \<open>Va\<close>, \<open>Fa\<close>, \<open>Ia\<close>,
  \<open>Ha\<close> are the addresses held by the variables \<open>L\<close>, \<open>V\<close>, \<open>F\<close>, \<open>I\<close>, \<open>H\<close>. Every
  assignment outside lines 81, 85, 88 and 94 is to an item of \<^verbatim>\<open>out\<close>.
\<close>

definition normalize_metrics_h :: "store \<Rightarrow> document \<Rightarrow> store \<times> (error + metrics)" where
  "normalize_metrics_h h0 doc =
     bindH (section_copy h0 doc ''language'') (\<lambda>h La.
     bindH (section_copy h doc ''vocal'') (\<lambda>h Va.
     bindH (section_copy h doc ''facial'') (\<lambda>h Fa.
     bindH (section_copy h doc ''interaction'') (\<lambda>h Ia.
     bindH (section_copy h doc ''highlevel'') (\<lambda>h Ha.
     bindH (h, norm_positivity (obj h La) []) (\<lambda>h out1.
     bindH (norm_question_h h La
              (norm_language_scalars (obj h La) (norm_objectivity (obj h La) out1))) (\<lambda>h out2.
     bindH (norm_energy_h h Va out2) (\<lambda>h out3.
       (h, bindE (norm_vocal_emotions (obj h Va) out3) (\<lambda>out4.
           bindE (norm_attention (obj h Fa) out4) (\<lambda>out5.
           bindE (norm_facial_emotions (obj h Fa) out5) (\<lambda>out6.
             Inr (norm_highlevel (obj h Ha) (norm_interaction (obj h Ia) out6))))))))))))))"

text \<open>\<^verbatim>\<open>score_one\<close> with the store threaded through: the bundle is passed on to
  \<^verbatim>\<open>normalize_metrics\<close>; the later stages work on the dictionaries the engine built.\<close>

definition score_one_h :: "config \<Rightarrow> store \<Rightarrow> document \<Rightarrow> string list \<Rightarrow> store \<times> (error + result)" where
  "score_one_h cfg h doc ord =
     (case normalize_metrics_h h doc of (h', r) \<Rightarrow>
        (h', bindE r (\<lambda>s_norm.
               let s_cur = build_curated_metrics s_norm
               in bindE (base_factors (weights cfg) s_cur) (\<lambda>bases.
                  bindE (apply_pattern (multipliers cfg) bases ord) (\<lambda>scores.
                  bindE (cosine_alignment (multipliers cfg) scores ord) (\<lambda>align.
                    Inr \<lparr>factors = map (\<lambda>(k, v). (lower k, round2 v)) scores,
                         alignment_pct = round2 align,
                         curated = s_cur,
                         raw = s_norm\<rparr>))))))"

text \<open>The loop of \<^verbatim>\<open>score_all_patterns\<close> with the store threaded through.\<close>

fun score_loop_h :: "config \<Rightarrow> store \<Rightarrow> document \<Rightarrow> entry option \<Rightarrow> (string \<times> entry) list
                     \<Rightarrow> (string \<times> pattern_info) list
                     \<Rightarrow> store \<times> (error + (entry option \<times> (string \<times> entry) list))" where
  "score_loop_h cfg h doc bst all_scores [] = (h, Inr (bst, all_scores))"
| "score_loop_h cfg h doc bst all_scores ((p, pinfo) # ps) =
     bindH (score_one_h cfg h doc (order pinfo)) (\<lambda>h' res.
     bindH (h', py_int p) (\<lambda>h' i.
       let e = tagged res \<lparr>pid = Some i, pname = name pinfo, porder = order pinfo\<rparr>;
           all_scores' = dict_set all_scores p e;
           bst' = (case bst of
                     None \<Rightarrow> Some e
                   | Some b \<Rightarrow> if alignment_pct res > alignment_pct b then Some e else Some b)
       in score_loop_h cfg h' doc bst' all_scores' ps))"

definition score_all_patterns_h :: "config \<Rightarrow> store \<Rightarrow> document \<Rightarrow> store \<times> (error + response)" where
  "score_all_patterns_h cfg h doc =
     bindH (score_loop_h cfg h doc None [] (patterns cfg)) (\<lambda>h' (b, a).
       (h', Inr \<lparr>best = b, all = a\<rparr>))"

text \<open>Every reference of the document is to an object of the store.\<close>

definition wf_doc :: "store \<Rightarrow> document \<Rightarrow> bool" where
  "wf_doc h doc = list_all (\<lambda>(k, v). case v of Val x \<Rightarrow> True | Ref a \<Rightarrow> a < length h) doc"

text \<open>The store \<open>h'\<close> has every object of \<open>h\<close>, at its address and with its contents.\<close>

definition keeps :: "store \<Rightarrow> store \<Rightarrow> bool" where
  "keeps h h' = (length h \<le> length h' \<and> take (length h) h' = h)"

text \<open>A document with two section objects, both with fields the engine rewrites in its
  copies.\<close>

definition store0 :: store where
  "store0 = [[(''question'', VStr ''Question: why''), (''offensiveness'', VStr ''none'')],
             [(''energy'', VDict [(''energetic'', VNum 0.5)])]]"

definition doc0 :: document where
  "doc0 = [(''language'', Ref 0), (''vocal'', Ref 1), (''facial'', Val VNone)]"

section \<open>Basic facts\<close>

lemma bindE_Inr [simp]: "bindE (Inr x) f = f x"
  by (simp add: bindE_def)

lemma bindE_Inl [simp]: "bindE (Inl e) f = Inl e"
  by (simp add: bindE_def)

lemma bindE_eq_Inr: "bindE m f = Inr y \<longleftrightarrow> (\<exists>x. m = Inr x \<and> f x = Inr y)"
  by (cases m) simp_all

lemma dict_get_dict_set:
  "dict_get (dict_set d k v) k' = (if k' = k then Some v else dict_get d k')"
  by (induction d) (auto simp: dict_get_def)

lemma has_key_dict_set: "has_key (dict_set d k v) k' \<longleftrightarrow> k' = k \<or> has_key d k'"
  by (simp add: has_key_def dict_get_dict_set)

lemma has_key_Cons: "has_key ((k', v) # d) k \<longleftrightarrow> k' = k \<or> has_key d k"
  by (simp add: has_key_def dict_get_def)

lemma dict_set_fresh: "dict_get d k = None \<Longrightarrow> dict_set d k v = d @ [(k, v)]"
  by (induction d) (auto simp: dict_get_def split: if_splits)

lemma dict_set_keys: "dict_get d k \<noteq> None \<Longrightarrow> map fst (dict_set d k v) = map fst d"
  by (induction d) (auto simp: dict_get_def)

section \<open>Properties of the scalar normalizers\<close>

lemma clamp_range: "0 \<le> clamp x 0 100 \<and> clamp x 0 100 \<le> 100"
  by (simp add: clamp_def)

lemma to100_range: "to100 v = Some x \<Longrightarrow> 0 \<le> x \<and> x \<le> 100"
  by (auto simp: to100_def clamp_def split: sum.splits)

lemma inv100_range: "inv100 v = Some x \<Longrightarrow> 0 \<le> x \<and> x \<le> 100"
  by (auto simp: inv100_def split: option.splits dest: to100_range)

text \<open>
  Claim C8. For every input \<open>v\<close> that \<^verbatim>\<open>float\<close> accepts, \<open>to100 v\<close> and \<open>inv100 v\<close> are
  both present and add up to 100; for every input that \<^verbatim>\<open>float\<close> rejects, both are
  absent.
\<close>

theorem inv100_plus_to100:
  "(case py_float v of
      Inr x \<Rightarrow> (\<exists>a b. to100 v = Some a \<and> inv100 v = Some b \<and> b + a = 100)
    | Inl e \<Rightarrow> to100 v = None \<and> inv100 v = None)"
  by (simp add: to100_def inv100_def split: sum.splits)

section \<open>The empty signal bundle\<close>


lemma getv_Nil [simp]: "getv [] k = VNone"
  by (simp add: getv_def get_or_def dict_get_def)

lemma has_key_Nil [simp]: "\<not> has_key [] k"
  by (simp add: has_key_def dict_get_def)

lemma norm_language_Nil: "norm_language [] out = Inr out"
  by (simp add: norm_language_def norm_positivity_def norm_objectivity_def
      norm_language_scalars_def norm_keywords_def norm_question_def question_flag_def
      question_ratio_def offensiveness_flag_def py_or_def)

lemma norm_energy_Nil: "norm_energy [] out = Inr out"
  by (simp add: norm_energy_def energy_flag_def)

lemma norm_vocal_emotions_Nil: "norm_vocal_emotions [] out = Inr out"
  by (simp add: norm_vocal_emotions_def py_or_def)

lemma norm_attention_Nil: "norm_attention [] out = Inr out"
  by (simp add: norm_attention_def py_or_def)

lemma norm_facial_emotions_Nil: "norm_facial_emotions [] out = Inr out"
  by (simp add: norm_facial_emotions_def py_or_def)

lemma norm_interaction_Nil: "norm_interaction [] out = out"
  by (simp add: norm_interaction_def)

lemma norm_highlevel_Nil: "norm_highlevel [] out = out"
  by (simp add: norm_highlevel_def)

lemmas norm_Nil = norm_language_Nil norm_energy_Nil norm_vocal_emotions_Nil norm_attention_Nil
  norm_facial_emotions_Nil norm_interaction_Nil norm_highlevel_Nil

lemma section_dict_Nil: "section_dict [] k = Inr []"
  by (simp add: section_dict_def py_or_def)

lemma normalize_metrics_empty: "normalize_metrics [] = Inr []"
  by (simp add: normalize_metrics_def section_dict_Nil norm_Nil)

text \<open>A bundle with a single section \<open>s\<close> holding the dictionary \<open>d\<close>.\<close>

lemma section_dict_single:
  "section_dict [(s, VDict d)] k = Inr (if k = s then d else [])"
  by (simp add: section_dict_def py_or_def getv_def get_or_def dict_get_def)

lemma normalize_interaction_only:
  "normalize_metrics [(''interaction'', VDict d)] = Inr (norm_interaction d [])"
  by (simp add: normalize_metrics_def section_dict_single norm_Nil)

lemma normalize_vocal_only:
  "normalize_metrics [(''vocal'', VDict d)] =
     bindE (norm_energy d []) (\<lambda>out. norm_vocal_emotions d out)"
  by (simp add: normalize_metrics_def section_dict_single norm_Nil bindE_def split: sum.splits)

lemma normalize_facial_only:
  "normalize_metrics [(''facial'', VDict d)] =
     bindE (norm_attention d []) (\<lambda>out. norm_facial_emotions d out)"
  by (simp add: normalize_metrics_def section_dict_single norm_Nil bindE_def split: sum.splits)

lemma normalize_language_only:
  "normalize_metrics [(''language'', VDict d)] = norm_language d []"
  by (simp add: normalize_metrics_def section_dict_single norm_Nil bindE_def split: sum.splits)

lemma build_curated_metrics_empty: "build_curated_metrics [] = []"
  by (simp add: build_curated_metrics_def norm_get_def dict_get_def avg_def wavg_def)

lemma base_factors_empty: "base_factors W [] = Inr bases0"
  by (simp add: base_factors_def bases0_def clamp_def)

lemma apply_pattern_zero:
  "4 \<le> length ord \<Longrightarrow> apply_pattern M bases0 ord = Inr bases0"
  by (auto simp: apply_pattern_def list_index_def bases0_def clamp_def)

lemma round2_0: "round2 0 = 0"
  by (simp add: round2_def round_half_even_def)

lemma lower_factor_names:
  "lower ''Precision'' = ''precision''" "lower ''Resolve'' = ''resolve''"
  "lower ''Innovation'' = ''innovation''" "lower ''Harmony'' = ''harmony''"
  by code_simp+

lemma dict_index_bases0:
  "x \<in> set factor_names \<Longrightarrow> dict_index bases0 x = Inr 0"
  by (auto simp: factor_names_def dict_index_def dict_get_def bases0_def)

lemma has_key_dict_index: "has_key d k \<Longrightarrow> \<exists>v. dict_index d k = Inr v"
  by (auto simp: has_key_def dict_index_def)

lemma rank_labels_present:
  "\<forall>l \<in> set rank_labels. has_key M l \<Longrightarrow>
     has_key M ''primary'' \<and> has_key M ''secondary'' \<and> has_key M ''tertiary'' \<and> has_key M ''quaternary''"
  by (simp add: rank_labels_def)

lemma valid_pattern_nth:
  "valid_pattern ord \<Longrightarrow> i < 4 \<Longrightarrow> ord ! i \<in> set factor_names"
  unfolding valid_pattern_def using nth_mem [of i ord] by auto

lemma norm_or_1_nonzero: "norm_or_1 v \<noteq> 0"
  by (simp add: norm_or_1_def Let_def)

lemma py_div_norm_or_1: "py_div x (norm_or_1 v) = Inr (x / norm_or_1 v)"
  by (simp add: py_div_def norm_or_1_nonzero)

lemma norm_or_1_zeros: "norm_or_1 [0, 0, 0, 0] = 1"
  by (simp add: norm_or_1_def)

lemma cosine_zero:
  assumes "valid_pattern ord" "\<forall>l \<in> set rank_labels. has_key M l"
  shows "cosine_alignment M bases0 ord = Inr 0"
proof -
  note r = rank_labels_present [OF assms(2)]
  obtain m0 where m0: "dict_index M ''primary'' = Inr m0"
    using r has_key_dict_index [of M "''primary''"] by auto
  obtain m1 where m1: "dict_index M ''secondary'' = Inr m1"
    using r has_key_dict_index [of M "''secondary''"] by auto
  obtain m2 where m2: "dict_index M ''tertiary'' = Inr m2"
    using r has_key_dict_index [of M "''tertiary''"] by auto
  obtain m3 where m3: "dict_index M ''quaternary'' = Inr m3"
    using r has_key_dict_index [of M "''quaternary''"] by auto
  note m = m0 m1 m2 m3
  from assms(1) have len: "length ord = 4"
    by (simp add: valid_pattern_def)
  have s: "bindE (list_index ord i) (dict_index bases0) = Inr 0" if "i < 4" for i
    using that len valid_pattern_nth [OF assms(1) that] by (simp add: list_index_def dict_index_bases0)
  have s4: "bindE (list_index ord 0) (dict_index bases0) = Inr 0"
     "bindE (list_index ord (Suc 0)) (dict_index bases0) = Inr 0"
     "bindE (list_index ord 2) (dict_index bases0) = Inr 0"
     "bindE (list_index ord 3) (dict_index bases0) = Inr 0"
    by (simp_all add: s)
  show ?thesis
    unfolding cosine_alignment_def
    by (simp add: m s4 Let_def norm_or_1_nonzero norm_or_1_zeros py_div_def clamp_def)
qed

lemma lower_names: "map (\<lambda>(k, v). (lower k, round2 v)) bases0 =
   [(''precision'', 0), (''resolve'', 0), (''innovation'', 0), (''harmony'', 0)]"
  by (simp add: bases0_def lower_factor_names round2_0)

lemma cfg0_rank_labels: "\<forall>l \<in> set rank_labels. has_key (multipliers cfg0) l"
  by (simp add: rank_labels_def cfg0_def has_key_Cons)

lemma valid_pattern_HPRI: "valid_pattern [''Harmony'', ''Precision'', ''Resolve'', ''Innovation'']"
  by (simp add: valid_pattern_def factor_names_def insert_commute)

lemma score_one_empty:
  assumes "valid_pattern ord" and "\<forall>l \<in> set rank_labels. has_key (multipliers cfg) l"
  shows "score_one cfg [] ord = Inr zero_result"
proof -
  from assms(1) have len: "4 \<le> length ord" by (simp add: valid_pattern_def)
  have "score_one cfg [] ord =
           Inr \<lparr>factors = map (\<lambda>(k, v). (lower k, round2 v)) bases0,
                alignment_pct = 0, curated = [], raw = []\<rparr>"
    unfolding score_one_def
    by (simp only: normalize_metrics_empty build_curated_metrics_empty bindE_Inr Let_def
        base_factors_empty apply_pattern_zero [OF len] cosine_zero [OF assms] round2_0)
  then show ?thesis
    by (simp only: lower_names zero_result_def)
qed

text \<open>
  Claim C7. For the empty signal bundle and every valid pattern (with a multiplier table
  that has the four rank labels), normalization gives the empty set, the curated map is
  empty, the four base factor scores are 0, and scoring succeeds with all four factors 0
  and alignment 0. The subject vector is the zero vector: its norm 0 is floored to the
  divisor 1, so the division of the alignment scorer does not raise (a division by 0
  raises \<^verbatim>\<open>ZeroDivisionError\<close>), and the alignment is 0.
\<close>

theorem empty_bundle_scores:
  assumes "valid_pattern ord" and "\<forall>l \<in> set rank_labels. has_key (multipliers cfg) l"
  shows "normalize_metrics [] = Inr []
       \<and> build_curated_metrics [] = []
       \<and> base_factors (weights cfg) [] =
           Inr [(''Precision'', 0), (''Resolve'', 0), (''Innovation'', 0), (''Harmony'', 0)]
       \<and> score_one cfg [] ord =
           Inr \<lparr>factors = [(''precision'', 0), (''resolve'', 0), (''innovation'', 0), (''harmony'', 0)],
                alignment_pct = 0, curated = [], raw = []\<rparr>
       \<and> sqrt (sum_list (map (\<lambda>x. x * x) [0, 0, 0, 0 :: real])) = 0
       \<and> norm_or_1 [0, 0, 0, 0] = 1
       \<and> py_div 0 (norm_or_1 [0, 0, 0, 0] * 1) = Inr 0
       \<and> py_div 0 0 = Inl ZeroDivisionError
       \<and> cosine_alignment (multipliers cfg)
            [(''Precision'', 0), (''Resolve'', 0), (''Innovation'', 0), (''Harmony'', 0)] ord = Inr 0"
proof -
  have a: "score_one cfg [] ord =
           Inr \<lparr>factors = [(''precision'', 0), (''resolve'', 0), (''innovation'', 0), (''harmony'', 0)],
                alignment_pct = 0, curated = [], raw = []\<rparr>"
    using score_one_empty [OF assms] by (simp only: zero_result_def)
  have b: "base_factors (weights cfg) [] =
           Inr [(''Precision'', 0), (''Resolve'', 0), (''Innovation'', 0), (''Harmony'', 0)]"
    unfolding base_factors_empty bases0_def ..
  have c: "sqrt (sum_list (map (\<lambda>x. x * x) [0, 0, 0, 0 :: real])) = 0"
    by simp
  have d: "py_div 0 (norm_or_1 [0, 0, 0, 0] * 1) = Inr 0" "py_div 0 0 = Inl ZeroDivisionError"
    by (simp_all add: py_div_def norm_or_1_zeros)
  have e: "cosine_alignment (multipliers cfg)
            [(''Precision'', 0), (''Resolve'', 0), (''Innovation'', 0), (''Harmony'', 0)] ord = Inr 0"
    using cosine_zero [OF assms] by (simp only: bases0_def)
  from a b c d e show ?thesis
    by (simp only: normalize_metrics_empty build_curated_metrics_empty norm_or_1_zeros simp_thms)
qed

theorem empty_bundle_scores_witness:
  "valid_pattern [''Harmony'', ''Precision'', ''Resolve'', ''Innovation'']
   \<and> has_key (multipliers cfg0) ''primary'' \<and> has_key (multipliers cfg0) ''secondary''
   \<and> has_key (multipliers cfg0) ''tertiary'' \<and> has_key (multipliers cfg0) ''quaternary''
   \<and> score_one cfg0 [] [''Harmony'', ''Precision'', ''Resolve'', ''Innovation''] =
           Inr \<lparr>factors = [(''precision'', 0), (''resolve'', 0), (''innovation'', 0), (''harmony'', 0)],
                alignment_pct = 0, curated = [], raw = []\<rparr>
   \<and> norm_or_1 [0, 0, 0, 0] = 1
   \<and> cosine_alignment (multipliers cfg0)
        [(''Precision'', 0), (''Resolve'', 0), (''Innovation'', 0), (''Harmony'', 0)]
        [''Harmony'', ''Precision'', ''Resolve'', ''Innovation''] = Inr 0"
  using valid_pattern_HPRI rank_labels_present [OF cfg0_rank_labels]
    empty_bundle_scores [OF valid_pattern_HPRI cfg0_rank_labels]
  by (simp only: simp_thms)

section \<open>Evaluation on the sample bundle\<close>

lemma normalize_talk: "normalize_metrics bundle_talk = Inr [(''talk_balance'', Some 100)]"
  by code_simp

lemma curated_talk:
  "build_curated_metrics [(''talk_balance'', Some 100)] = [(''talk_balance'', 100)]"
  by code_simp

lemma bases_talk:
  "base_factors (weights cfg0) [(''talk_balance'', 100)] = Inr (harmony_only 100)"
  unfolding harmony_only_def by code_simp

lemma multipliers_cfg0:
  "multipliers cfg0 = [(''primary'', 2), (''secondary'', 1), (''tertiary'', 1), (''quaternary'', 0.5)]"
  by (simp add: cfg0_def)

lemma apply_PRIH:
  "apply_pattern (multipliers cfg0) (harmony_only 100) PRIH = Inr (harmony_only 50)"
  unfolding harmony_only_def PRIH_def by code_simp

lemma apply_HPRI:
  "apply_pattern (multipliers cfg0) (harmony_only 100) HPRI = Inr (harmony_only 100)"
  unfolding harmony_only_def HPRI_def by code_simp


lemma tnorm_cfg0: "norm_or_1 [2, 1, 1, 1 / 2] = 5 / 2"
proof -
  have "sqrt (25 / 4) = 5 / 2"
    by (rule real_sqrt_unique) (simp_all add: power2_eq_square)
  then show ?thesis
    by (simp add: norm_or_1_def)
qed

lemma snorm_single: "0 < h \<Longrightarrow> norm_or_1 [0, 0, 0, h] = h" "0 < h \<Longrightarrow> norm_or_1 [h, 0, 0, 0] = h"
  by (simp_all add: norm_or_1_def)


lemma cos_PRIH:
  "cosine_alignment (multipliers cfg0) (harmony_only 50) PRIH
     = Inr 20"
  unfolding cosine_alignment_def multipliers_cfg0 PRIH_def HPRI_def PPRI_def
  by (simp add: dict_index_def dict_get_def list_index_def harmony_only_def tnorm_cfg0
      Let_def py_div_def
      snorm_single clamp_def)

lemma cos_HPRI:
  "cosine_alignment (multipliers cfg0) (harmony_only 100) HPRI
     = Inr 80"
  unfolding cosine_alignment_def multipliers_cfg0 PRIH_def HPRI_def PPRI_def
  by (simp add: dict_index_def dict_get_def list_index_def harmony_only_def tnorm_cfg0
      Let_def py_div_def
      snorm_single clamp_def)


lemma round2_ints: "round2 20 = 20" "round2 50 = 50" "round2 80 = 80" "round2 100 = 100"
  by (simp_all add: round2_def round_half_even_def)


lemma lower_harmony_only:
  "map (\<lambda>(k, v). (lower k, round2 v)) (harmony_only h) =
     [(''precision'', 0), (''resolve'', 0), (''innovation'', 0), (''harmony'', round2 h)]"
  by (simp add: harmony_only_def lower_factor_names round2_0)

lemma score_one_talk_PRIH: "score_one cfg0 bundle_talk PRIH = Inr (talk_result 50 20)"
  unfolding score_one_def
  by (simp only: normalize_talk curated_talk bases_talk apply_PRIH cos_PRIH bindE_Inr Let_def
      lower_harmony_only round2_ints talk_result_def)

lemma score_one_talk_HPRI: "score_one cfg0 bundle_talk HPRI = Inr (talk_result 100 80)"
  unfolding score_one_def
  by (simp only: normalize_talk curated_talk bases_talk apply_HPRI cos_HPRI bindE_Inr Let_def
      lower_harmony_only round2_ints talk_result_def)


lemma patterns_cfg0:
  "patterns cfg0 = [(''1'', \<lparr>name = ''Analyst'', order = PRIH\<rparr>),
                    (''15'', \<lparr>name = ''Mediator'', order = HPRI\<rparr>)]"
  by (simp add: cfg0_def PRIH_def HPRI_def)

lemma py_int_keys: "py_int ''1'' = Inr 1" "py_int ''15'' = Inr 15"
  by code_simp+

lemma alignment_entries: "alignment_pct entry_1 = 20" "alignment_pct entry_15 = 80"
  by (simp_all add: entry_1_def entry_15_def tagged_def talk_result_def)

lemma score_all_talk:
  "score_all_patterns cfg0 bundle_talk =
     Inr \<lparr>best = Some entry_15, all = [(''1'', entry_1), (''15'', entry_15)]\<rparr>"
proof -
  have a: "alignment_pct (talk_result 100 80) = 80" "alignment_pct (talk_result 50 20) = 20"
    by (simp_all add: talk_result_def)
  have "score_loop cfg0 bundle_talk None [] (patterns cfg0) =
          Inr (Some entry_15, [(''1'', entry_1), (''15'', entry_15)])"
    unfolding patterns_cfg0
    by (simp add: score_one_talk_PRIH score_one_talk_HPRI py_int_keys a alignment_entries
        entry_1_def [symmetric] entry_15_def [symmetric])
  then show ?thesis
    by (simp add: score_all_patterns_def)
qed

section \<open>The scoring endpoint: pattern selectors\<close>

lemma score_falsy:
  assumes "\<not> id_given req" "\<not> name_given req" "\<not> order_given req"
  shows "score cfg req =
           (case score_all_patterns cfg (spiky req) of Inl e \<Rightarrow> Inl (HTTP400 e) | Inr r \<Rightarrow> Inr r)"
  using assms by (simp add: score_def)

text \<open>
  Claim C10. A pattern selector that is falsy (\<open>pattern_id\<close> 0, an empty
  \<open>pattern_name\<close>, an empty \<open>bcat_pattern\<close>) is treated exactly as a missing one: the
  request is answered by best-of-catalog scoring.
\<close>

theorem falsy_selector_is_no_selector:
  assumes "pattern_id req = None \<or> pattern_id req = Some 0"
      and "pattern_name req = None \<or> pattern_name req = Some []"
      and "bcat_pattern req = None \<or> bcat_pattern req = Some []"
  shows "score cfg req = score cfg (req\<lparr>pattern_id := None, pattern_name := None, bcat_pattern := None\<rparr>)
       \<and> score cfg req =
           (case score_all_patterns cfg (spiky req) of Inl e \<Rightarrow> Inl (HTTP400 e) | Inr r \<Rightarrow> Inr r)"
proof -
  have 1: "\<not> id_given req" "\<not> name_given req" "\<not> order_given req"
    using assms by (auto simp: id_given_def name_given_def order_given_def)
  let ?r = "req\<lparr>pattern_id := None, pattern_name := None, bcat_pattern := None\<rparr>"
  have 2: "\<not> id_given ?r" "\<not> name_given ?r" "\<not> order_given ?r"
    by (simp_all add: id_given_def name_given_def order_given_def)
  show ?thesis
    using score_falsy [OF 1] score_falsy [OF 2] by simp
qed

lemma lower_sample_names:
  "lower ''Analyst'' = ''analyst''" "lower ''Mediator'' = ''mediator''"
  "lower ''Nobody'' = ''nobody''"
  by code_simp+

lemma py_str_99: "py_str 99 = ''99''"
  by code_simp

lemma patterns_cfg0_99: "\<not> has_key (patterns cfg0) ''99''"
  by (simp add: patterns_cfg0 has_key_Cons has_key_def dict_get_def)

lemma patterns_cfg0_15:
  "dict_index (patterns cfg0) ''15'' = Inr \<lparr>name = ''Mediator'', order = HPRI\<rparr>"
  by (simp add: patterns_cfg0 dict_index_def dict_get_def)

theorem falsy_selector_is_no_selector_witness:
  "score cfg0 \<lparr>spiky = bundle_talk, pattern_id = Some 0, pattern_name = Some [],
               bcat_pattern = Some []\<rparr> =
     Inr \<lparr>best = Some entry_15, all = [(''1'', entry_1), (''15'', entry_15)]\<rparr>"
proof -
  let ?r = "\<lparr>spiky = bundle_talk, pattern_id = Some 0, pattern_name = Some [],
              bcat_pattern = Some []\<rparr>"
  have "score cfg0 ?r =
          (case score_all_patterns cfg0 (spiky ?r) of Inl e \<Rightarrow> Inl (HTTP400 e) | Inr r \<Rightarrow> Inr r)"
    by (rule falsy_selector_is_no_selector [of ?r cfg0, THEN conjunct2]) simp_all
  then show ?thesis
    by (simp add: score_all_talk)
qed

text \<open>
  Claim C2 (the code departs from it). A request whose \<open>pattern_id\<close> is not in the
  catalog is answered with a successful response scored against catalog entry \<open>15\<close>
  (line 35 of \<^verbatim>\<open>api.py\<close>), while the sibling branch for an unknown name raises.
\<close>

theorem unknown_id_scored_with_entry_15:
  "\<not> has_key (patterns cfg0) (py_str 99)
   \<and> score cfg0 \<lparr>spiky = bundle_talk, pattern_id = Some 99, pattern_name = None,
                  bcat_pattern = None\<rparr> =
       Inr \<lparr>best = Some (tagged (talk_result 100 80)
                            \<lparr>pid = None, pname = ''custom'', porder = HPRI\<rparr>),
            all = []\<rparr>"
  by (simp add: score_def resolve_order_def id_given_def name_given_def order_given_def
      py_str_99 patterns_cfg0_99 patterns_cfg0_15 score_one_talk_HPRI)

section \<open>Normalization on unusual fields\<close>

text \<open>
  Claim C3 (the code departs from it). Normalization raises on a bundle whose vocal
  energy is a string that is no number: the comparison of line 96 is outside every
  \<^verbatim>\<open>try\<close>, while \<^verbatim>\<open>to100\<close> on the same value would have given \<^verbatim>\<open>None\<close>.
\<close>

theorem energy_text_raises: "normalize_metrics bundle_energy_text = Inl TypeError"
  unfolding bundle_energy_text_def by code_simp

text \<open>Where the coercion is caught, the key is still written, with the value
  \<^verbatim>\<open>None\<close>.\<close>

lemma filler_text_none: "normalize_metrics bundle_filler_text = Inr [(''filler_inv'', None)]"
  unfolding bundle_filler_text_def by code_simp

text \<open>
  Claim C5 (the code departs from it). \<open>negativity_inv\<close> is computed by hand, without
  the clamp that \<^verbatim>\<open>inv100\<close> applies: a negative weight of 500 gives \<open>-400\<close>.
\<close>

theorem negativity_inv_unclamped:
  "normalize_metrics bundle_negative_500 =
     Inr [(''positivity'', Some 0), (''negativity_inv'', Some (- 400))]"
  unfolding bundle_negative_500_def by code_simp

text \<open>
  Claim C6 (the code departs from it). With \<open>sad\<close> and \<open>angry\<close> both absent from the
  vocal emotions, the key \<open>emo_neg_inv\<close> is still produced, from the defaults 0,
  while the positive bucket of the same block and the attention score are omitted when
  their classes are absent.
\<close>

theorem absent_negative_bucket_emitted:
  "\<not> has_key [(''happy'', VNum 0.9)] ''sad'' \<and> \<not> has_key [(''happy'', VNum 0.9)] ''angry''
   \<and> normalize_metrics bundle_happy_voice =
        Inr [(''emo_pos'', Some 90), (''emo_neg_inv'', Some 100)]"
  unfolding bundle_happy_voice_def by code_simp

lemma happy_face: "normalize_metrics bundle_happy_face =
   Inr [(''facial_emo_pos'', Some 90), (''facial_emo_neu'', Some 0), (''facial_emo_dis_inv'', Some 100)]"
  unfolding bundle_happy_face_def by code_simp



section \<open>Best-of-catalog scoring\<close>

lemma alignment_tagged [simp]: "alignment_pct (tagged res tag) = alignment_pct res"
  by (simp add: tagged_def)

lemma first_max_head:
  "\<forall>e' \<in> set es. alignment_pct e' \<le> alignment_pct e \<Longrightarrow> first_max (e # es) e"
  unfolding first_max_def by (rule exI [of _ "[]"], rule exI [of _ es]) simp

lemma first_max_Cons:
  assumes "first_max es b" "alignment_pct e < alignment_pct b"
  shows "first_max (e # es) b"
proof -
  from assms(1) obtain es1 es2 where
    "es = es1 @ b # es2" "\<forall>e \<in> set es1. alignment_pct e < alignment_pct b"
    "\<forall>e \<in> set es2. alignment_pct e \<le> alignment_pct b"
    unfolding first_max_def by blast
  with assms(2) show ?thesis
    unfolding first_max_def by (intro exI [of _ "e # es1"] exI [of _ es2]) simp
qed

lemma find_first_max:
  assumes "first_max es b"
  shows "find (\<lambda>e. \<forall>e' \<in> set es. alignment_pct e' \<le> alignment_pct e) es = Some b"
proof -
  from assms obtain es1 es2 where
    es: "es = es1 @ b # es2" and 1: "\<forall>e \<in> set es1. alignment_pct e < alignment_pct b"
    and 2: "\<forall>e \<in> set es2. alignment_pct e \<le> alignment_pct b"
    unfolding first_max_def by blast
  let ?P = "\<lambda>e. \<forall>e' \<in> set es. alignment_pct e' \<le> alignment_pct e"
  have b: "?P b" using 1 2 by (auto simp: es less_imp_le)
  have n: "\<not> ?P e" if "e \<in> set es1" for e
    using that 1 by (auto simp: es intro!: bexI [of _ b])
  have "find ?P (es1 @ b # es2) = Some b"
    using b n by (induction es1) auto
  then show ?thesis by (simp add: es)
qed

lemma pick_step:
  assumes i: "(bst' = Some c' \<and> (\<forall>e' \<in> set es. alignment_pct e' \<le> alignment_pct c')) \<or>
              (\<exists>b. bst' = Some b \<and> alignment_pct c' < alignment_pct b \<and> first_max es b)"
      and c': "c' = (case bst of None \<Rightarrow> e
                     | Some b \<Rightarrow> if alignment_pct e > alignment_pct b then e else b)"
  shows "case bst of
           None \<Rightarrow> (\<exists>b. bst' = Some b \<and> first_max (e # es) b)
         | Some c \<Rightarrow>
             (bst' = Some c \<and> (\<forall>e' \<in> set (e # es). alignment_pct e' \<le> alignment_pct c)) \<or>
             (\<exists>b. bst' = Some b \<and> alignment_pct c < alignment_pct b \<and> first_max (e # es) b)"
proof (cases bst)
  case None
  then have c: "c' = e" using c' by simp
  from i show ?thesis
  proof
    assume "bst' = Some c' \<and> (\<forall>e' \<in> set es. alignment_pct e' \<le> alignment_pct c')"
    then have "bst' = Some e \<and> first_max (e # es) e"
      using first_max_head [of es e] by (simp add: c)
    then show ?thesis by (simp add: None)
  next
    assume "\<exists>b. bst' = Some b \<and> alignment_pct c' < alignment_pct b \<and> first_max es b"
    then obtain b where "bst' = Some b" "alignment_pct e < alignment_pct b" "first_max es b"
      by (auto simp: c)
    then have "bst' = Some b \<and> first_max (e # es) b"
      using first_max_Cons [of es b e] by simp
    then show ?thesis by (simp add: None)
  qed
next
  case (Some c)
  show ?thesis
  proof (cases "alignment_pct e > alignment_pct c")
    case True
    then have c: "c' = e" using c' Some by simp
    from i show ?thesis
    proof
      assume "bst' = Some c' \<and> (\<forall>e' \<in> set es. alignment_pct e' \<le> alignment_pct c')"
      then have "bst' = Some e \<and> alignment_pct c < alignment_pct e \<and> first_max (e # es) e"
        using first_max_head [of es e] True by (simp add: c)
      then show ?thesis by (simp add: Some)
    next
      assume "\<exists>b. bst' = Some b \<and> alignment_pct c' < alignment_pct b \<and> first_max es b"
      then obtain b where "bst' = Some b" "alignment_pct e < alignment_pct b" "first_max es b"
        by (auto simp: c)
      then have "bst' = Some b \<and> alignment_pct c < alignment_pct b \<and> first_max (e # es) b"
        using first_max_Cons [of es b e] True by simp
      then show ?thesis by (simp add: Some)
    qed
  next
    case False
    then have c: "c' = c" using c' Some by simp
    from i show ?thesis
    proof
      assume "bst' = Some c' \<and> (\<forall>e' \<in> set es. alignment_pct e' \<le> alignment_pct c')"
      then have "bst' = Some c \<and> (\<forall>e' \<in> set (e # es). alignment_pct e' \<le> alignment_pct c)"
        using False by (simp add: c)
      then show ?thesis by (simp add: Some)
    next
      assume "\<exists>b. bst' = Some b \<and> alignment_pct c' < alignment_pct b \<and> first_max es b"
      then obtain b where "bst' = Some b" "alignment_pct c < alignment_pct b" "first_max es b"
        by (auto simp: c)
      then have "bst' = Some b \<and> alignment_pct c < alignment_pct b \<and> first_max (e # es) b"
        using first_max_Cons [of es b e] False by simp
      then show ?thesis by (simp add: Some)
    qed
  qed
qed

lemma score_loop_step:
  assumes "score_loop cfg sp bst acc ((p, pinfo) # ps) = Inr out"
  shows "\<exists>e. score_loop cfg sp
              (Some (case bst of None \<Rightarrow> e
                     | Some b \<Rightarrow> if alignment_pct e > alignment_pct b then e else b))
              (dict_set acc p e) ps = Inr out"
proof -
  from assms obtain res i where
    "score_one cfg sp (order pinfo) = Inr res" "py_int p = Inr i"
    and l: "score_loop cfg sp
         (case bst of None \<Rightarrow> Some (tagged res \<lparr>pid = Some i, pname = name pinfo, porder = order pinfo\<rparr>)
          | Some b \<Rightarrow> if alignment_pct res > alignment_pct b
                     then Some (tagged res \<lparr>pid = Some i, pname = name pinfo, porder = order pinfo\<rparr>)
                     else Some b)
         (dict_set acc p (tagged res \<lparr>pid = Some i, pname = name pinfo, porder = order pinfo\<rparr>)) ps
        = Inr out"
    by (auto simp: bindE_eq_Inr Let_def)
  let ?e = "tagged res \<lparr>pid = Some i, pname = name pinfo, porder = order pinfo\<rparr>"
  have "(case bst of None \<Rightarrow> Some ?e
          | Some b \<Rightarrow> if alignment_pct res > alignment_pct b then Some ?e else Some b)
        = Some (case bst of None \<Rightarrow> ?e
                | Some b \<Rightarrow> if alignment_pct ?e > alignment_pct b then ?e else b)"
    by (simp split: option.splits)
  with l show ?thesis by auto
qed

lemma score_loop_inv:
  assumes "score_loop cfg sp bst acc ps = Inr (bst', acc')"
      and "distinct (map fst acc @ map fst ps)"
  shows "\<exists>new. acc' = acc @ new \<and> map fst new = map fst ps \<and>
           (case bst of
              None \<Rightarrow> (new = [] \<and> bst' = None) \<or> (\<exists>b. bst' = Some b \<and> first_max (map snd new) b)
            | Some c \<Rightarrow>
                (bst' = Some c \<and> (\<forall>e \<in> set (map snd new). alignment_pct e \<le> alignment_pct c)) \<or>
                (\<exists>b. bst' = Some b \<and> alignment_pct c < alignment_pct b
                      \<and> first_max (map snd new) b))"
  using assms
proof (induction ps arbitrary: bst acc)
  case Nil
  then show ?case by (auto split: option.splits)
next
  case (Cons x ps)
  obtain p pinfo where x: "x = (p, pinfo)" by (cases x)
  let ?c = "\<lambda>e. case bst of None \<Rightarrow> e
            | Some b \<Rightarrow> if alignment_pct e > alignment_pct b then e else b"
  from Cons.prems(1) obtain e where
    l: "score_loop cfg sp (Some (?c e)) (dict_set acc p e) ps = Inr (bst', acc')"
    unfolding x using score_loop_step by blast
  from Cons.prems(2) have fresh: "dict_get acc p = None"
    by (auto simp: x dict_get_def map_of_eq_None_iff)
  then have ds: "dict_set acc p e = acc @ [(p, e)]"
    by (rule dict_set_fresh)
  from Cons.prems(2) have d: "distinct (map fst (acc @ [(p, e)]) @ map fst ps)"
    by (auto simp: x)
  from Cons.IH [OF l [unfolded ds] d] obtain new where
    n: "acc' = (acc @ [(p, e)]) @ new" "map fst new = map fst ps"
    and i: "(bst' = Some (?c e) \<and> (\<forall>e' \<in> set (map snd new). alignment_pct e' \<le> alignment_pct (?c e))) \<or>
            (\<exists>b. bst' = Some b \<and> alignment_pct (?c e) < alignment_pct b
                  \<and> first_max (map snd new) b)"
    by auto
  have a: "acc' = acc @ ((p, e) # new)" "map fst ((p, e) # new) = map fst (x # ps)"
    using n by (simp_all add: x)
  have "case bst of
          None \<Rightarrow> (\<exists>b. bst' = Some b \<and> first_max (e # map snd new) b)
        | Some c \<Rightarrow>
            (bst' = Some c \<and> (\<forall>e' \<in> set (e # map snd new). alignment_pct e' \<le> alignment_pct c)) \<or>
            (\<exists>b. bst' = Some b \<and> alignment_pct c < alignment_pct b
                  \<and> first_max (e # map snd new) b)"
    by (rule pick_step [OF i refl])
  then have "case bst of
          None \<Rightarrow> ((p, e) # new = [] \<and> bst' = None)
                    \<or> (\<exists>b. bst' = Some b \<and> first_max (map snd ((p, e) # new)) b)
        | Some c \<Rightarrow>
            (bst' = Some c \<and> (\<forall>e' \<in> set (map snd ((p, e) # new)). alignment_pct e' \<le> alignment_pct c)) \<or>
            (\<exists>b. bst' = Some b \<and> alignment_pct c < alignment_pct b
                  \<and> first_max (map snd ((p, e) # new)) b)"
    by (simp split: option.splits)
  with a show ?case by blast
qed


text \<open>
  Claim C4. Whenever best-of-catalog scoring returns, \<open>all\<close> has one entry per catalog
  entry, in catalog order, and \<open>best\<close> is the first entry of \<open>all\<close> whose
  \<open>alignment_pct\<close> is at least that of every entry: it attains the maximum, and among
  the entries that attain it, it is the first in catalog order.
\<close>

theorem best_is_first_maximum:
  assumes "score_all_patterns cfg sp = Inr r" and "distinct (map fst (patterns cfg))"
  shows "map fst (all r) = map fst (patterns cfg)
       \<and> best r = find (\<lambda>e. \<forall>e' \<in> set (map snd (all r)). alignment_pct e' \<le> alignment_pct e)
                     (map snd (all r))
       \<and> (patterns cfg \<noteq> [] \<longrightarrow> (\<exists>b. best r = Some b \<and> first_max (map snd (all r)) b))"
proof -
  from assms(1) obtain b a where
    l: "score_loop cfg sp None [] (patterns cfg) = Inr (b, a)" and r: "r = \<lparr>best = b, all = a\<rparr>"
    by (auto simp: score_all_patterns_def bindE_eq_Inr)
  from assms(2) have "distinct (map fst [] @ map fst (patterns cfg))" by simp
  from score_loop_inv [OF l this] have
    k: "map fst a = map fst (patterns cfg)"
    and i: "(a = [] \<and> b = None) \<or> (\<exists>c. b = Some c \<and> first_max (map snd a) c)"
    by auto
  from i have f: "b = find (\<lambda>e. \<forall>e' \<in> set (map snd a). alignment_pct e' \<le> alignment_pct e) (map snd a)"
  proof
    assume "a = [] \<and> b = None"
    then show ?thesis by simp
  next
    assume "\<exists>c. b = Some c \<and> first_max (map snd a) c"
    then obtain c where "b = Some c" "first_max (map snd a) c" by blast
    then show ?thesis using find_first_max [of "map snd a" c] by simp
  qed
  have n: "patterns cfg \<noteq> [] \<longrightarrow> (\<exists>c. b = Some c \<and> first_max (map snd a) c)"
    using i k by auto
  from k f n show ?thesis
    unfolding r by simp
qed

lemma distinct_patterns_cfg0: "distinct (map fst (patterns cfg0))"
  by (simp add: patterns_cfg0)

theorem best_is_first_maximum_witness:
  "find (\<lambda>e. \<forall>e' \<in> set [entry_1, entry_15]. alignment_pct e' \<le> alignment_pct e)
        [entry_1, entry_15] = Some entry_15
   \<and> first_max [entry_1, entry_15] entry_15"
proof -
  have "patterns cfg0 \<noteq> []" by (simp add: patterns_cfg0)
  with best_is_first_maximum [OF score_all_talk distinct_patterns_cfg0]
  show ?thesis by simp
qed

section \<open>The signal bundle is not written to\<close>

lemma keeps_refl: "keeps h h"
  by (simp add: keeps_def)

lemma keeps_trans:
  assumes "keeps h h1" "keeps h1 h2"
  shows "keeps h h2"
proof -
  have "take (length h) h2 = take (length h) (take (length h1) h2)"
    using assms(1) by (simp add: keeps_def min_def)
  with assms show ?thesis by (simp add: keeps_def)
qed

lemma keeps_obj_set: "length h \<le> a \<Longrightarrow> keeps h h1 \<Longrightarrow> keeps h (obj_set h1 a d)"
  by (simp add: keeps_def obj_set_def)

lemma bindH_keeps:
  assumes "keeps h (fst m)" and "\<And>h1 x. m = (h1, Inr x) \<Longrightarrow> keeps h (fst (f h1 x))"
  shows "keeps h (fst (bindH m f))"
  using assms by (cases m) (auto simp: bindH_def split: sum.splits)

lemma section_copy_keeps:
  assumes "section_copy h1 doc k = (h2, Inr a)"
  shows "a = length h1 \<and> keeps h1 h2"
  using assms
  by (auto simp: section_copy_def alloc_def keeps_def split: sum.splits)

lemma section_copy_keeps': "keeps h (fst (section_copy h doc k))"
  by (auto simp: section_copy_def alloc_def keeps_def split: sum.splits)

lemma norm_question_h_keeps: "length h \<le> a \<Longrightarrow> keeps h h1 \<Longrightarrow> keeps h (fst (norm_question_h h1 a out))"
  by (simp add: norm_question_h_def Let_def keeps_obj_set)

lemma norm_energy_h_keeps: "length h \<le> a \<Longrightarrow> keeps h h1 \<Longrightarrow> keeps h (fst (norm_energy_h h1 a out))"
  by (auto simp: norm_energy_h_def bindH_def Let_def keeps_obj_set split: sum.splits)

lemma section_copy_step:
  assumes "keeps h h1" "section_copy h1 doc k = (h2, Inr a)"
  shows "length h \<le> a" "keeps h h2"
proof -
  from section_copy_keeps [OF assms(2)] have a: "a = length h1" and e: "keeps h1 h2" by simp_all
  from assms(1) a show "length h \<le> a" by (simp add: keeps_def)
  from keeps_trans [OF assms(1) e] show "keeps h h2" .
qed

lemma section_copy_fst: "keeps h h1 \<Longrightarrow> keeps h (fst (section_copy h1 doc k))"
  using keeps_trans [OF _ section_copy_keeps'] .

lemma normalize_metrics_h_keeps: "keeps h (fst (normalize_metrics_h h doc))"
  unfolding normalize_metrics_h_def
proof (rule bindH_keeps, goal_cases)
  case 1 show ?case by (rule section_copy_keeps')
next
  case (2 h1 La)
  note c1 = section_copy_step [OF keeps_refl 2]
  show ?case
  proof (rule bindH_keeps, goal_cases)
    case 1 show ?case by (rule section_copy_fst [OF c1(2)])
  next
    case (2 h2 Va)
    note c2 = section_copy_step [OF c1(2) 2]
    show ?case
    proof (rule bindH_keeps, goal_cases)
      case 1 show ?case by (rule section_copy_fst [OF c2(2)])
    next
      case (2 h3 Fa)
      note c3 = section_copy_step [OF c2(2) 2]
      show ?case
      proof (rule bindH_keeps, goal_cases)
        case 1 show ?case by (rule section_copy_fst [OF c3(2)])
      next
        case (2 h4 Ia)
        note c4 = section_copy_step [OF c3(2) 2]
        show ?case
        proof (rule bindH_keeps, goal_cases)
          case 1 show ?case by (rule section_copy_fst [OF c4(2)])
        next
          case (2 h5 Ha)
          note c5 = section_copy_step [OF c4(2) 2]
          show ?case
          proof (rule bindH_keeps, goal_cases)
            case 1 show ?case using c5(2) by simp
          next
            case (2 h6 out1)
            then have e6: "keeps h h6" using c5(2) by simp
            show ?case
            proof (rule bindH_keeps, goal_cases)
              case 1 show ?case by (rule norm_question_h_keeps [OF c1(1) e6])
            next
              case (2 h7 out2)
              have e7: "keeps h h7"
                using norm_question_h_keeps [OF c1(1) e6, of "norm_language_scalars (obj h6 La) (norm_objectivity (obj h6 La) out1)"] 2
                by simp
              show ?case
              proof (rule bindH_keeps, goal_cases)
                case 1 show ?case by (rule norm_energy_h_keeps [OF c2(1) e7])
              next
                case (2 h8 out3)
                have e8: "keeps h h8"
                  using norm_energy_h_keeps [OF c2(1) e7, of out2] 2 by simp
                then show ?case by simp
              qed
            qed
          qed
        qed
      qed
    qed
  qed
qed

lemma score_one_h_keeps: "keeps h (fst (score_one_h cfg h doc ord))"
  using normalize_metrics_h_keeps [of h doc]
  by (cases "normalize_metrics_h h doc") (simp add: score_one_h_def)

lemma score_loop_h_keeps: "keeps h (fst (score_loop_h cfg h doc bst acc ps))"
proof (induction ps arbitrary: h bst acc)
  case Nil
  show ?case by (simp add: keeps_refl)
next
  case (Cons x ps)
  obtain p pinfo where x: "x = (p, pinfo)" by (cases x)
  obtain h1 r where r: "score_one_h cfg h doc (order pinfo) = (h1, r)"
    by (cases "score_one_h cfg h doc (order pinfo)")
  have e1: "keeps h h1"
    using score_one_h_keeps [of h cfg doc "order pinfo"] r by simp
  show ?case
  proof (cases r)
    case (Inl e)
    with x r e1 show ?thesis by (simp add: bindH_def)
  next
    case (Inr res)
    show ?thesis
    proof (cases "py_int p")
      case (Inl e)
      with x r e1 Inr show ?thesis by (simp add: bindH_def)
    next
      case Inr2: (Inr i)
      obtain b' a' where
        step: "score_loop_h cfg h doc bst acc (x # ps) = score_loop_h cfg h1 doc b' a' ps"
        using x r Inr Inr2 by (simp add: bindH_def Let_def)
      from keeps_trans [OF e1 Cons.IH [of h1 b' a']]
      show ?thesis by (simp only: step)
    qed
  qed
qed

lemma score_all_patterns_h_keeps: "keeps h (fst (score_all_patterns_h cfg h doc))"
  unfolding score_all_patterns_h_def
proof (rule bindH_keeps, goal_cases)
  case 1 show ?case by (rule score_loop_h_keeps)
next
  case (2 h1 x)
  have "keeps h h1" using score_loop_h_keeps [of h cfg doc None "[]" "patterns cfg"] 2 by simp
  then show ?case by (simp split: prod.splits)
qed

lemma getv_snapshot:
  "getv (snapshot h doc) k = (case dict_get doc k of None \<Rightarrow> VNone | Some v \<Rightarrow> deref h v)"
  by (induction doc) (auto simp: getv_def get_or_def dict_get_def snapshot_def)

lemma deref_append:
  assumes "wf_doc h doc" "dict_get doc k = Some v"
  shows "deref (h @ xs) v = deref h v"
proof -
  from assms(2) have "(k, v) \<in> set doc" by (simp add: dict_get_def map_of_SomeD)
  with assms(1) show ?thesis
    by (auto simp: wf_doc_def list_all_iff deref_def obj_def nth_append split: sval.splits)
qed

lemma section_copy_append:
  assumes "wf_doc h doc"
  shows "section_copy (h @ xs) doc k =
           (case section_dict (snapshot h doc) k of
              Inl e \<Rightarrow> (h @ xs, Inl e)
            | Inr d \<Rightarrow> (h @ xs @ [d], Inr (length h + length xs)))"
proof (cases "dict_get doc k")
  case None
  then show ?thesis
    by (simp add: section_copy_def section_dict_def getv_snapshot alloc_def split: sum.splits)
next
  case (Some v)
  then show ?thesis
    using deref_append [OF assms Some, of xs]
    by (simp add: section_copy_def section_dict_def getv_snapshot alloc_def split: sum.splits)
qed

lemma snapshot_keeps:
  assumes "wf_doc h doc" "keeps h h'"
  shows "snapshot h' doc = snapshot h doc"
proof -
  have "h' = h @ drop (length h) h'"
    using assms(2) append_take_drop_id [of "length h" h'] by (simp add: keeps_def)
  then obtain xs where h': "h' = h @ xs" ..
  have "\<And>k v. (k, v) \<in> set doc \<Longrightarrow> deref (h @ xs) v = deref h v"
    using assms(1)
    by (auto simp: wf_doc_def list_all_iff deref_def obj_def nth_append split: sval.splits)
  then show ?thesis
    unfolding snapshot_def h' by (auto intro!: map_cong)
qed

lemma keeps_append [simp]: "keeps h (h @ xs)"
  by (simp add: keeps_def)

lemma obj_app0: "obj (h @ x # xs) (length h) = x"
  by (simp add: obj_def nth_append)

lemma obj_app1: "obj (h @ x0 # x # xs) (Suc (length h)) = x"
  by (simp add: obj_def nth_append)

lemma obj_app2: "obj (h @ x0 # x1 # x # xs) (Suc (Suc (length h))) = x"
  by (simp add: obj_def nth_append)

lemma obj_app3: "obj (h @ x0 # x1 # x2 # x # xs) (Suc (Suc (Suc (length h)))) = x"
  by (simp add: obj_def nth_append)

lemma obj_app4: "obj (h @ x0 # x1 # x2 # x3 # x # xs) (Suc (Suc (Suc (Suc (length h))))) = x"
  by (simp add: obj_def nth_append)

lemma obj_set_app0: "obj_set (h @ x # xs) (length h) d = h @ d # xs"
  by (simp add: obj_set_def list_update_append)

lemma obj_set_app1: "obj_set (h @ x0 # x # xs) (Suc (length h)) d = h @ x0 # d # xs"
  by (simp add: obj_set_def list_update_append)

lemmas obj_app = obj_app0 obj_app1 obj_app2 obj_app3 obj_app4 obj_set_app0 obj_set_app1

lemma bindH_section_copy:
  assumes "wf_doc h doc" "keeps h h1"
  shows "bindH (section_copy h1 doc k) f =
           (case section_dict (snapshot h doc) k of
              Inl e \<Rightarrow> (h1, Inl e)
            | Inr d \<Rightarrow> f (h1 @ [d]) (length h1))"
proof -
  have "h1 = h @ drop (length h) h1"
    using assms(2) append_take_drop_id [of "length h" h1] by (simp add: keeps_def)
  then obtain xs where h1: "h1 = h @ xs" ..
  show ?thesis
    unfolding h1 section_copy_append [OF assms(1)]
    by (simp add: bindH_def split: sum.splits)
qed

lemma norm_question_h_app:
  "norm_question_h (h @ L # xs) (length h) out =
     (h @ offensiveness_flag (question_ratio (question_flag L)) # xs, Inr (norm_question L out))"
  by (simp add: norm_question_h_def norm_question_def Let_def obj_app)

lemma norm_energy_h_app:
  "norm_energy_h (h @ x0 # V # xs) (Suc (length h)) out =
     (case energy_flag V of
        Inl e \<Rightarrow> (h @ x0 # V # xs, Inl e)
      | Inr V1 \<Rightarrow> (h @ x0 # V1 # xs, norm_energy V out))"
  by (simp add: norm_energy_h_def norm_energy_def bindH_def Let_def obj_app split: sum.splits)

lemma getv_dict_set_other: "k' \<noteq> k \<Longrightarrow> getv (dict_set d k v) k' = getv d k'"
  by (induction d) (auto simp: getv_def get_or_def dict_get_def)

lemma energy_flag_emotions:
  assumes "energy_flag V = Inr V1"
  shows "norm_vocal_emotions V1 out = norm_vocal_emotions V out"
proof -
  have "getv V1 ''emotions'' = getv V ''emotions''"
    using assms
    by (auto simp: energy_flag_def bindE_eq_Inr getv_dict_set_other split: pyval.splits)
  then show ?thesis by (simp add: norm_vocal_emotions_def)
qed

lemma bindH_Inl: "bindH (h, Inl e) f = (h, Inl e)"
  by (simp add: bindH_def)

lemma bindH_Inr: "bindH (h, Inr x) f = f h x"
  by (simp add: bindH_def)

lemma normalize_metrics_h_refines:
  assumes "wf_doc h doc"
  shows "snd (normalize_metrics_h h doc) = normalize_metrics (snapshot h doc)"
proof -
  let ?S = "snapshot h doc"
  note sc = bindH_section_copy [OF assms]
  note defs = normalize_metrics_h_def normalize_metrics_def
  show ?thesis
  proof (cases "section_dict ?S ''language''")
    case (Inl e) then show ?thesis by (simp add: defs sc keeps_refl)
  next
    case L: (Inr L)
    show ?thesis
    proof (cases "section_dict ?S ''vocal''")
      case (Inl e) with L show ?thesis by (simp add: defs sc keeps_refl)
    next
      case V: (Inr V)
      show ?thesis
      proof (cases "section_dict ?S ''facial''")
        case (Inl e) with L V show ?thesis by (simp add: defs sc keeps_refl)
      next
        case F: (Inr F)
        show ?thesis
        proof (cases "section_dict ?S ''interaction''")
          case (Inl e) with L V F show ?thesis by (simp add: defs sc keeps_refl)
        next
          case I: (Inr I)
          show ?thesis
          proof (cases "section_dict ?S ''highlevel''")
            case (Inl e) with L V F I show ?thesis by (simp add: defs sc keeps_refl)
          next
            case H: (Inr H)
            show ?thesis
            proof (cases "norm_positivity L []")
              case (Inl e)
              with L V F I H show ?thesis
                by (simp add: defs sc keeps_refl obj_app bindH_Inl bindH_Inr norm_language_def)
            next
              case P: (Inr out1)
              show ?thesis
              proof (cases "energy_flag V")
                case (Inl e)
                with L V F I H P show ?thesis
                  by (simp add: defs sc keeps_refl obj_app bindH_Inl bindH_Inr norm_language_def
                        norm_question_h_app norm_energy_h_app norm_energy_def)
              next
                case E: (Inr V1)
                with L V F I H P show ?thesis
                  by (simp add: defs sc keeps_refl obj_app bindH_Inl bindH_Inr norm_language_def
                        norm_question_h_app norm_energy_h_app energy_flag_emotions [OF E]
                        bindE_def split: sum.splits)
              qed
            qed
          qed
        qed
      qed
    qed
  qed
qed

lemma score_one_h_refines:
  assumes "wf_doc h doc"
  shows "snd (score_one_h cfg h doc ord) = score_one cfg (snapshot h doc) ord"
  using normalize_metrics_h_refines [OF assms]
  by (cases "normalize_metrics_h h doc") (simp add: score_one_h_def score_one_def)

lemma bindH_fst: "fst (bindH (h, r) (\<lambda>h' x. (h', g h' x))) = h"
  by (cases r) (simp_all add: bindH_def)

text \<open>The objects that a run without exception writes to are the five new ones.\<close>

lemma normalize_metrics_h_store:
  assumes "wf_doc h doc"
    and "section_dict (snapshot h doc) ''language'' = Inr L"
    and "section_dict (snapshot h doc) ''vocal'' = Inr V"
    and "section_dict (snapshot h doc) ''facial'' = Inr F"
    and "section_dict (snapshot h doc) ''interaction'' = Inr I"
    and "section_dict (snapshot h doc) ''highlevel'' = Inr H"
    and "norm_positivity L [] = Inr out1"
    and "energy_flag V = Inr V1"
  shows "fst (normalize_metrics_h h doc) =
           h @ [offensiveness_flag (question_ratio (question_flag L)), V1, F, I, H]"
  using assms(2-)
  by (simp add: normalize_metrics_h_def bindH_section_copy [OF assms(1)] keeps_refl obj_app
        bindH_Inl bindH_Inr bindH_fst norm_question_h_app norm_energy_h_app)

lemma wf_doc0: "wf_doc store0 doc0"
  by (simp add: wf_doc_def store0_def doc0_def)

lemma store0_written:
  "fst (normalize_metrics_h store0 doc0) =
     store0 @ [[(''question'', VNum 1), (''offensiveness'', VNum 0), (''question_ratio'', VNum 1)],
               [(''energy'', VNum 0.5)], [], [], []]"
proof -
  have a: "section_dict (snapshot store0 doc0) ''language'' =
             Inr [(''question'', VStr ''Question: why''), (''offensiveness'', VStr ''none'')]"
    "section_dict (snapshot store0 doc0) ''vocal'' = Inr [(''energy'', VDict [(''energetic'', VNum 0.5)])]"
    "section_dict (snapshot store0 doc0) ''facial'' = Inr []"
    "section_dict (snapshot store0 doc0) ''interaction'' = Inr []"
    "section_dict (snapshot store0 doc0) ''highlevel'' = Inr []"
    by code_simp+
  have b: "norm_positivity [(''question'', VStr ''Question: why''), (''offensiveness'', VStr ''none'')] [] = Inr []"
    by code_simp
  have c: "energy_flag [(''energy'', VDict [(''energetic'', VNum 0.5)])] = Inr [(''energy'', VNum 0.5)]"
    by code_simp
  have d: "offensiveness_flag (question_ratio (question_flag
             [(''question'', VStr ''Question: why''), (''offensiveness'', VStr ''none'')])) =
           [(''question'', VNum 1), (''offensiveness'', VNum 0), (''question_ratio'', VNum 1)]"
    by code_simp
  show ?thesis
    unfolding normalize_metrics_h_store [OF wf_doc0 a b c] d ..
qed

text \<open>
  Claim C9. Scoring a bundle (\<^verbatim>\<open>score_one\<close>, and the catalog loop that calls it once per
  pattern) leaves every dict object that existed before the call at its address and with
  its contents: the engine assigns only to items of the copies it made. For a document
  whose references are to objects of the store, the document read as a value is the same
  after the call as before it.
\<close>

theorem bundle_unchanged:
  "take (length h) (fst (score_one_h cfg h doc ord)) = h
   \<and> take (length h) (fst (score_all_patterns_h cfg h doc)) = h
   \<and> (wf_doc h doc \<longrightarrow>
        snapshot (fst (score_one_h cfg h doc ord)) doc = snapshot h doc
      \<and> snapshot (fst (score_all_patterns_h cfg h doc)) doc = snapshot h doc)"
  using score_one_h_keeps [of h cfg doc ord] score_all_patterns_h_keeps [of h cfg doc]
    snapshot_keeps [of h doc "fst (score_one_h cfg h doc ord)"]
    snapshot_keeps [of h doc "fst (score_all_patterns_h cfg h doc)"]
  by (simp add: keeps_def)

theorem bundle_unchanged_witness:
  "wf_doc store0 doc0
   \<and> take (length store0) (fst (score_one_h cfg0 store0 doc0 HPRI)) = store0
   \<and> snapshot (fst (score_one_h cfg0 store0 doc0 HPRI)) doc0 = snapshot store0 doc0
   \<and> snapshot (fst (score_all_patterns_h cfg0 store0 doc0)) doc0 = snapshot store0 doc0"
  using bundle_unchanged [of store0 cfg0 doc0 HPRI] wf_doc0
  by (simp only: simp_thms)

end
